theory Spec2Isabelle
  imports Complex_Main "HOL-Library.Sublist"
begin

section \<open>JavaScript values\<close>

text \<open>
  The values the program handles are JSON payloads of the vendor API, capability values
  and settings. Numbers are modelled as exact reals together with \<open>NaN\<close>; rounding and
  the infinities of IEEE doubles are not modelled. An object is an association list in
  which the first binding of a key is the effective one. Strings are lists of \<open>char\<close>.
\<close>

datatype jsval =
    JUndefined
  | JNull
  | JBool bool
  | JNum real
  | JNaN
  | JStr string
  | JArr "jsval list"
  | JObj "(string \<times> jsval) list"

text \<open>
  Everything the program throws or rejects with: the two errors of the language that
  the code can run into, \<open>new Error(msg)\<close>, \<open>new OAuth2Error(msg)\<close>, and whatever the
  transport rejected a request with.
\<close>

datatype error =
    TypeError
  | SyntaxError
  | Error string
  | OAuth2Error string
  | TransportError string

text \<open>\<open>typeof v === 'string'\<close>, \<open>'number'\<close>, \<open>'boolean'\<close>.\<close>

fun is_string :: "jsval \<Rightarrow> bool" where
  "is_string (JStr s) = True"
| "is_string v = False"


fun is_boolean :: "jsval \<Rightarrow> bool" where
  "is_boolean (JBool b) = True"
| "is_boolean v = False"

text \<open>Truthiness, as \<open>!v\<close>, \<open>a || b\<close> and \<open>a && b\<close> read it.\<close>

fun truthy :: "jsval \<Rightarrow> bool" where
  "truthy JUndefined = False"
| "truthy JNull = False"
| "truthy (JBool b) = b"
| "truthy (JNum r) = (r \<noteq> 0)"
| "truthy JNaN = False"
| "truthy (JStr s) = (s \<noteq> [])"
| "truthy (JArr xs) = True"
| "truthy (JObj kvs) = True"

text \<open>\<open>a || b\<close>\<close>

definition js_or :: "jsval \<Rightarrow> jsval \<Rightarrow> jsval" where
  "js_or a b = (if truthy a then a else b)"

text \<open>
  \<open>Object.prototype.hasOwnProperty.call(v, k)\<close> and the property read \<open>v.k\<close>, for the
  property names this program uses (\<open>fault\<close>, \<open>faultstring\<close>, \<open>deviceID\<close>,
  \<open>changeableValues\<close>, \<open>units\<close>, \<open>indoorTemperature\<close>, \<open>isAlive\<close>, \<open>mode\<close>,
  \<open>heatSetpoint\<close>, \<open>coolSetpoint\<close>, \<open>thermostatSetpointStatus\<close>,
  \<open>autoChangeoverActive\<close>, \<open>nextPeriodTime\<close>): none of them is \<open>length\<close>, an index or
  a name inherited from a prototype, so only an object can hold one. Both throw a
  \<open>TypeError\<close> on \<open>undefined\<close> and \<open>null\<close>; on a boolean, a number, a string or an array
  the test is false and the read is \<open>undefined\<close>.
\<close>

fun hasOwnProperty :: "jsval \<Rightarrow> string \<Rightarrow> error + bool" where
  "hasOwnProperty JUndefined k = Inl TypeError"
| "hasOwnProperty JNull k = Inl TypeError"
| "hasOwnProperty (JObj kvs) k = Inr (map_of kvs k \<noteq> None)"
| "hasOwnProperty v k = Inr False"

fun get_prop :: "jsval \<Rightarrow> string \<Rightarrow> error + jsval" where
  "get_prop JUndefined k = Inl TypeError"
| "get_prop JNull k = Inl TypeError"
| "get_prop (JObj kvs) k = Inr (case map_of kvs k of Some v \<Rightarrow> v | None \<Rightarrow> JUndefined)"
| "get_prop v k = Inr JUndefined"

text \<open>
  \<open>v.includes(lit)\<close> for a string literal \<open>lit\<close>: \<open>String.prototype.includes\<close> on a
  string (a substring test), \<open>Array.prototype.includes\<close> on an array (an element test);
  no other value has the method, so the call throws a \<open>TypeError\<close>.
\<close>

fun js_includes :: "jsval \<Rightarrow> string \<Rightarrow> error + bool" where
  "js_includes (JStr s) lit = Inr (sublist lit s)"
| "js_includes (JArr xs) lit = Inr (JStr lit \<in> set xs)"
| "js_includes v lit = Inl TypeError"

text \<open>Sequencing of computations that may throw: the first error ends the sequence.\<close>

definition and_then :: "error + 'a \<Rightarrow> ('a \<Rightarrow> error + 'b) \<Rightarrow> error + 'b" where
  "and_then r f = (case r of Inl e \<Rightarrow> Inl e | Inr x \<Rightarrow> f x)"

text \<open>
  The arithmetic operators \<open>-\<close> and \<open>*\<close> convert their operand to a number first. On
  \<open>undefined\<close>, \<open>null\<close>, booleans and numbers the conversion is written out; on strings,
  arrays and objects it is the language's number parsing and \<open>ToPrimitive\<close>, taken as
  the parameter \<open>ToNumber\<close> (\<open>None\<close> is \<open>NaN\<close>, an error is a \<open>TypeError\<close> thrown by the
  conversion). \<open>js_arith ToNumber f v\<close> is a numeric expression \<open>f\<close> applied to \<open>v\<close>.
\<close>

fun js_arith :: "(jsval \<Rightarrow> error + real option) \<Rightarrow> (real \<Rightarrow> real) \<Rightarrow> jsval \<Rightarrow> error + jsval" where
  "js_arith ToNumber f (JNum r) = Inr (JNum (f r))"
| "js_arith ToNumber f JNaN = Inr JNaN"
| "js_arith ToNumber f JUndefined = Inr JNaN"
| "js_arith ToNumber f JNull = Inr (JNum (f 0))"
| "js_arith ToNumber f (JBool b) = Inr (JNum (f (if b then 1 else 0)))"
| "js_arith ToNumber f v =
     (case ToNumber v of
        Inl e \<Rightarrow> Inl e
      | Inr None \<Rightarrow> Inr JNaN
      | Inr (Some r) \<Rightarrow> Inr (JNum (f r)))"

section \<open>HoneywellUtils\<close>

text \<open>
  The two conversions, as expressions over the reals. The program evaluates them on IEEE
  doubles: the rounding of each operation and the overflow to \<open>Infinity\<close> are not
  modelled, so nothing is stated here about how close a round trip of the program comes
  to its argument.
\<close>

definition ftoc :: "real \<Rightarrow> real" where
  "ftoc f = (f - 32) / 1.8"


text \<open>The two functions as the program calls them, on any value.\<close>

definition ftoc_js :: "(jsval \<Rightarrow> error + real option) \<Rightarrow> jsval \<Rightarrow> error + jsval" where
  "ftoc_js ToNumber v = js_arith ToNumber ftoc v"


section \<open>HoneywellOAuth2Client\<close>

text \<open>
  What \<open>onHandleResponse\<close> receives: the status, its text, the \<open>Content-Type\<close> header
  (\<open>headers.get\<close> gives a string or \<open>null\<close>, here \<open>None\<close>), the text that
  \<open>response.text()\<close> resolves to, and the \<open>ok\<close> flag.
\<close>

record raw_response =
  status :: nat
  statusText :: string
  contentType :: "string option"
  body_text :: string
  ok :: bool

text \<open>
  The effects of the client that an observer sees, in the order they happen: a line
  written with \<open>this.error\<close> (with the value logged), an event emitted to the
  subscribers, the call of the inherited \<open>onHandleNotOK\<close> (with the body it is given), a
  request handed to \<open>fetch\<close>, and a call of \<open>save\<close> (with the token stored at that moment).
\<close>

record request =
  url :: string
  http_method :: string
  headers :: "(string \<times> string) list"
  params :: "(string \<times> jsval) list"

record token =
  access_token :: jsval
  refresh_token :: jsval

datatype client_event =
    LogError jsval
  | Emit string
  | SuperOnHandleNotOK jsval
  | Fetch request
  | Save "token option"

definition RATE_LIMIT_MESSAGE :: string where
  "RATE_LIMIT_MESSAGE = ''Rate limit quota violation.''"

text \<open>
  \<open>_detectRateLimit(body = {})\<close>: the result (or the error thrown) and the effects. The
  default \<open>{}\<close> replaces an \<open>undefined\<close> argument only.
\<close>

definition detectRateLimit :: "jsval \<Rightarrow> (error + bool) \<times> client_event list" where
  "detectRateLimit body0 =
     (let body = (if body0 = JUndefined then JObj [] else body0) in
      (case hasOwnProperty body ''fault'' of
        Inl e \<Rightarrow> (Inl e, [])
      | Inr False \<Rightarrow> (Inr False, [])
      | Inr True \<Rightarrow>
          (case get_prop body ''fault'' of
             Inl e \<Rightarrow> (Inl e, [])
           | Inr fault \<Rightarrow>
               (case hasOwnProperty fault ''faultstring'' of
                  Inl e \<Rightarrow> (Inl e, [LogError fault])
                | Inr False \<Rightarrow> (Inr False, [LogError fault])
                | Inr True \<Rightarrow>
                    (case and_then (get_prop fault ''faultstring'')
                            (\<lambda>faultstring. js_includes faultstring RATE_LIMIT_MESSAGE) of
                       Inl e \<Rightarrow> (Inl e, [LogError fault])
                     | Inr True \<Rightarrow> (Inr True, [LogError fault, Emit ''rateLimited''])
                     | Inr False \<Rightarrow> (Inr False, [LogError fault]))))))"

text \<open>
  \<open>onHandleNotOK\<close>: the detector first, then the inherited handler of the library, which
  is not part of this program and is the parameter \<open>super\<close>: it throws (\<open>Inl\<close>), returns
  an \<open>Error\<close> (\<open>Inr (Some err)\<close>) or returns something else (\<open>Inr None\<close>).
\<close>

definition onHandleNotOK ::
  "(jsval \<Rightarrow> raw_response \<Rightarrow> error + error option) \<Rightarrow> jsval \<Rightarrow> raw_response
     \<Rightarrow> (error + error option) \<times> client_event list" where
  "onHandleNotOK super body r =
     (case detectRateLimit body of
        (Inl e, evs) \<Rightarrow> (Inl e, evs)
      | (Inr limited, evs) \<Rightarrow> (super body r, evs @ [SuperOnHandleNotOK body]))"

text \<open>
  The body as \<open>onHandleResponse\<close> reads it (for a status other than 204): the text, parsed
  when the content type is a string starting with \<open>application/json\<close>, an empty text giving
  \<open>{}\<close>. \<open>JSON.parse\<close> is the language's and is the parameter \<open>JSON_parse\<close>.
\<close>

definition readBody :: "(string \<Rightarrow> error + jsval) \<Rightarrow> raw_response \<Rightarrow> error + jsval" where
  "readBody JSON_parse r =
     (case contentType r of
        None \<Rightarrow> Inr (JStr (body_text r))
      | Some ct \<Rightarrow>
          if prefix ''application/json'' ct
          then (if length (body_text r) = 0 then Inr (JObj []) else JSON_parse (body_text r))
          else Inr (JStr (body_text r)))"

definition onHandleResponse ::
  "(string \<Rightarrow> error + jsval) \<Rightarrow> (jsval \<Rightarrow> raw_response \<Rightarrow> error + error option)
     \<Rightarrow> raw_response \<Rightarrow> (error + jsval) \<times> client_event list" where
  "onHandleResponse JSON_parse super r =
     (if status r = 204 then (Inr JUndefined, [])
      else
        (case readBody JSON_parse r of
           Inl e \<Rightarrow> (Inl e, [])
         | Inr body \<Rightarrow>
             if ok r then (Inr body, [])
             else
               (case onHandleNotOK super body r of
                  (Inl e, evs) \<Rightarrow> (Inl e, evs)
                | (Inr None, evs) \<Rightarrow>
                    (Inl (OAuth2Error
                       ''Invalid onHandleNotOK return value, expected: instanceof Error''), evs)
                | (Inr (Some err), evs) \<Rightarrow> (Inl err, evs))))"

text \<open>
  What \<open>onRefreshToken\<close> uses and this program does not define: the method
  \<open>isRefreshable\<close> of a token, \<open>fetch\<close> (which rejects or resolves to a response), the
  inherited \<open>onHandleRefreshTokenResponse\<close> (which throws or gives the new token) and the
  base64 encoding of \<open>Buffer\<close>.
\<close>

record oauth2_lib =
  isRefreshable :: "token \<Rightarrow> bool"
  fetch :: "request \<Rightarrow> error + raw_response"
  onHandleRefreshTokenResponse :: "raw_response \<Rightarrow> error + token"
  base64 :: "string \<Rightarrow> string"

text \<open>
  The client: the stored token (\<open>this._token\<close>, \<open>null\<close> is \<open>None\<close>), the token URL, the
  two constants read from the environment, and the effects so far.
\<close>

record client =
  stored_token :: "token option"
  tokenUrl :: string
  API_KEY :: string
  API_SECRET :: string
  effects :: "client_event list"

definition getToken :: "client \<Rightarrow> token option" where
  "getToken c = stored_token c"

definition authorization :: "oauth2_lib \<Rightarrow> client \<Rightarrow> string" where
  "authorization lib c = ''Basic '' @ base64 lib (API_KEY c @ '':'' @ API_SECRET c)"

definition refreshRequest :: "oauth2_lib \<Rightarrow> client \<Rightarrow> token \<Rightarrow> request" where
  "refreshRequest lib c t =
     \<lparr>url = tokenUrl c,
      http_method = ''POST'',
      headers = [(''Authorization'', authorization lib c)],
      params = [(''grant_type'', JStr ''refresh_token''),
                (''refresh_token'', refresh_token t)]\<rparr>"

text \<open>
  \<open>onRefreshToken\<close>. The error of a response that is not \<open>ok\<close> is
  \<open>new Error(`Invalid Response (${response.status})`)\<close>, kept as \<open>InvalidResponse\<close> with
  the status.
\<close>

datatype refresh_error = Thrown error | InvalidResponse nat

definition onRefreshToken ::
  "oauth2_lib \<Rightarrow> client \<Rightarrow> (refresh_error + token option) \<times> client" where
  "onRefreshToken lib c =
     (case getToken c of
        None \<Rightarrow> (Inl (Thrown (OAuth2Error ''Missing Token'')), c)
      | Some t \<Rightarrow>
          if \<not> isRefreshable lib t
          then (Inl (Thrown (OAuth2Error ''Token cannot be refreshed'')), c)
          else
            let req = refreshRequest lib c t;
                c1 = c\<lparr>effects := effects c @ [Fetch req]\<rparr>
            in (case fetch lib req of
                  Inl e \<Rightarrow> (Inl (Thrown e), c1)
                | Inr response \<Rightarrow>
                    if \<not> ok response then (Inl (InvalidResponse (status response)), c1)
                    else
                      (case onHandleRefreshTokenResponse lib response of
                         Inl e \<Rightarrow> (Inl (Thrown e), c1)
                       | Inr t' \<Rightarrow>
                           (let c2 = c1\<lparr>stored_token := Some t'\<rparr>;
                                c3 = c2\<lparr>effects := effects c2 @ [Save (stored_token c2)]\<rparr>
                            in (Inr (getToken c3), c3)))))"

section \<open>HoneywellLyricClient\<close>

text \<open>
  The four values of a thermostat write, as \<open>setThermostat\<close> receives them and as the
  posted JSON carries them; a value not supplied is \<open>undefined\<close>.
\<close>

record thermostat_values =
  mode :: jsval
  heatSetpoint :: jsval
  coolSetpoint :: jsval
  thermostatSetpointStatus :: jsval

record thermostat_args = thermostat_values +
  locationId :: jsval
  deviceId :: jsval

text \<open>The posted JSON: the two optional keys are \<open>None\<close> when the code does not set them.\<close>

record thermostat_json = thermostat_values +
  autoChangeoverActive :: "jsval option"
  nextPeriodTime :: "jsval option"

text \<open>
  What \<open>this.post\<close> is called with: the JSON and the path, kept as the three values the
  template \<open>/v2/devices/thermostats/${deviceId}?locationId=${locationId}&apikey=${...}\<close>
  interpolates.
\<close>

record post_request =
  path_deviceId :: jsval
  path_locationId :: jsval
  path_apikey :: string
  json :: thermostat_json

text \<open>
  \<open>getDevice\<close>: the two checks, then the GET, whose outcome (after \<open>onHandleResponse\<close>)
  is the parameter \<open>remote\<close>.
\<close>

definition getDevice :: "(error + jsval) \<Rightarrow> jsval \<Rightarrow> jsval \<Rightarrow> error + jsval" where
  "getDevice remote locId devId =
     (if \<not> is_string devId then Inl (Error ''invalid_device_id'')
      else if \<not> is_string locId then Inl (Error ''invalid_location_id'')
      else remote)"

definition getDeviceData :: "(error + jsval) \<Rightarrow> jsval \<Rightarrow> jsval \<Rightarrow> error + jsval" where
  "getDeviceData remote locId devId =
     and_then (getDevice remote locId devId) (\<lambda>deviceData.
       if \<not> truthy deviceData then Inl (Error ''invalid_device_properties'')
       else
         and_then (hasOwnProperty deviceData ''deviceID'') (\<lambda>hasId.
           if \<not> hasId then Inl (Error ''invalid_device_properties'')
           else
             and_then (hasOwnProperty deviceData ''changeableValues'') (\<lambda>hasValues.
               if \<not> hasValues then Inl (Error ''invalid_device_properties'')
               else Inr deviceData)))"

text \<open>\<open>deviceData.changeableValues.k\<close>, and \<open>a || deviceData.changeableValues.k\<close>, which
  reads the snapshot only when \<open>a\<close> is falsy.\<close>

definition changeable :: "jsval \<Rightarrow> string \<Rightarrow> error + jsval" where
  "changeable deviceData k =
     and_then (get_prop deviceData ''changeableValues'') (\<lambda>values. get_prop values k)"

definition or_changeable :: "jsval \<Rightarrow> jsval \<Rightarrow> string \<Rightarrow> error + jsval" where
  "or_changeable a deviceData k = (if truthy a then Inr a else changeable deviceData k)"

text \<open>
  \<open>_sendThermostatData\<close> in its three parts: the object literal with the
  \<open>autoChangeoverActive\<close> copy, the \<open>HoldUntil\<close> rule, and the whole method, which reads the
  device first and posts the JSON last.
\<close>

definition mergeThermostatJson ::
  "'a thermostat_values_scheme \<Rightarrow> jsval \<Rightarrow> error + thermostat_json" where
  "mergeThermostatJson args deviceData =
     and_then (or_changeable (mode args) deviceData ''mode'') (\<lambda>m.
     and_then (or_changeable (heatSetpoint args) deviceData ''heatSetpoint'') (\<lambda>h.
     and_then (or_changeable (coolSetpoint args) deviceData ''coolSetpoint'') (\<lambda>c.
     and_then (or_changeable (thermostatSetpointStatus args) deviceData
                 ''thermostatSetpointStatus'') (\<lambda>st.
     and_then (changeable deviceData ''autoChangeoverActive'') (\<lambda>aca.
       Inr \<lparr>mode = m, heatSetpoint = h, coolSetpoint = c, thermostatSetpointStatus = st,
            autoChangeoverActive = (if is_boolean aca then Some aca else None),
            nextPeriodTime = None\<rparr>)))))"

definition applyHoldPolicy :: "thermostat_json \<Rightarrow> jsval \<Rightarrow> error + thermostat_json" where
  "applyHoldPolicy j deviceData =
     (if thermostatSetpointStatus j = JStr ''HoldUntil''
      then and_then (changeable deviceData ''nextPeriodTime'') (\<lambda>npt.
             if is_string npt then Inr (j\<lparr>nextPeriodTime := Some npt\<rparr>)
             else Inr (j\<lparr>thermostatSetpointStatus := JStr ''PermanentHold''\<rparr>))
      else Inr j)"

definition sendThermostatData ::
  "client \<Rightarrow> (error + jsval) \<Rightarrow> thermostat_args \<Rightarrow> error + post_request" where
  "sendThermostatData c remote args =
     and_then (getDeviceData remote (locationId args) (deviceId args)) (\<lambda>deviceData.
     and_then (mergeThermostatJson args deviceData) (\<lambda>merged.
     and_then (applyHoldPolicy merged deviceData) (\<lambda>j.
       Inr \<lparr>path_deviceId = deviceId args, path_locationId = locationId args,
            path_apikey = API_KEY c, json = j\<rparr>)))"


definition resumeSchedule ::
  "client \<Rightarrow> (error + jsval) \<Rightarrow> jsval \<Rightarrow> jsval \<Rightarrow> error + post_request" where
  "resumeSchedule c remote locId devId =
     (if \<not> is_string devId then Inl (Error ''invalid_device_id'')
      else if \<not> is_string locId then Inl (Error ''invalid_location_id'')
      else sendThermostatData c remote
             \<lparr>mode = JUndefined, heatSetpoint = JUndefined, coolSetpoint = JUndefined,
              thermostatSetpointStatus = JStr ''NoHold'',
              locationId = locId, deviceId = devId\<rparr>)"

section \<open>HoneywellLyricDevice\<close>

text \<open>
  What the device does to the platform, in order: a line written with \<open>this.error\<close>, a
  call of \<open>setAvailable\<close>, a call of \<open>setUnavailable\<close> (with the key of the message), and a
  trigger of the flow card \<open>thermostat_mode_changed\<close> (with the mode in its state).
\<close>

datatype device_event =
    ErrorLogged string
  | SetAvailable
  | SetUnavailable string
  | Trigger jsval

text \<open>
  The device as the platform keeps it: the capabilities it was paired with, the value of
  each capability, the settings, the availability flag, \<open>locationId\<close> of the store,
  \<open>id\<close> of the device data, and the effects so far. \<open>setCapabilityValue\<close>,
  \<open>setSettings\<close>, \<open>setAvailable\<close> and \<open>setUnavailable\<close> are the platform's; they are
  modelled as the plain updates of this record.
\<close>

record device =
  capabilities :: "string set"
  capabilityValues :: "string \<Rightarrow> jsval"
  settings :: "string \<Rightarrow> jsval"
  available :: bool
  store_locationId :: jsval
  data_id :: jsval
  happened :: "device_event list"

text \<open>
  The parts of the language the device code calls on values of any shape: the number
  conversion behind \<open>-\<close> and \<open>*\<close> (see \<open>js_arith\<close>) and \<open>String.prototype.toLowerCase\<close>.
\<close>

record js_runtime =
  ToNumber :: "jsval \<Rightarrow> error + real option"
  toLowerCase :: "string \<Rightarrow> string"

definition UNIT_CELSIUS :: string where
  "UNIT_CELSIUS = ''Celsius''"

definition hasCapability :: "device \<Rightarrow> string \<Rightarrow> bool" where
  "hasCapability s k = (k \<in> capabilities s)"

definition getCapabilityValue :: "device \<Rightarrow> string \<Rightarrow> jsval" where
  "getCapabilityValue s k = capabilityValues s k"

definition setCapabilityValue :: "device \<Rightarrow> string \<Rightarrow> jsval \<Rightarrow> device" where
  "setCapabilityValue s k v = s\<lparr>capabilityValues := (capabilityValues s)(k := v)\<rparr>"

definition getSetting :: "device \<Rightarrow> string \<Rightarrow> jsval" where
  "getSetting s k = settings s k"

definition setSettings :: "device \<Rightarrow> string \<Rightarrow> jsval \<Rightarrow> device" where
  "setSettings s k v = s\<lparr>settings := (settings s)(k := v)\<rparr>"

definition getAvailable :: "device \<Rightarrow> bool" where
  "getAvailable s = available s"

definition setAvailable :: "device \<Rightarrow> device" where
  "setAvailable s = s\<lparr>available := True, happened := happened s @ [SetAvailable]\<rparr>"

definition setUnavailable :: "device \<Rightarrow> string \<Rightarrow> device" where
  "setUnavailable s msg = s\<lparr>available := False, happened := happened s @ [SetUnavailable msg]\<rparr>"

definition log_error :: "device \<Rightarrow> string \<Rightarrow> device" where
  "log_error s msg = s\<lparr>happened := happened s @ [ErrorLogged msg]\<rparr>"

definition trigger :: "device \<Rightarrow> jsval \<Rightarrow> device" where
  "trigger s m = s\<lparr>happened := happened s @ [Trigger m]\<rparr>"

definition onRateLimited :: "device \<Rightarrow> device" where
  "onRateLimited s = setUnavailable s ''rateLimited''"

definition getLocationId :: "device \<Rightarrow> error + jsval" where
  "getLocationId s =
     (if \<not> is_string (store_locationId s) then Inl (Error ''invalid_location_id_in_store'')
      else Inr (store_locationId s))"

text \<open>
  A parse step ends normally (\<open>None\<close>) or by throwing (\<open>Some e\<close>); either way the device is
  as the step left it. \<open>then_step\<close> runs the next step unless the last one threw.
\<close>

type_synonym outcome = "error option \<times> device"

definition then_step :: "outcome \<Rightarrow> (device \<Rightarrow> outcome) \<Rightarrow> outcome" where
  "then_step r f = (case r of (Some e, s) \<Rightarrow> (Some e, s) | (None, s) \<Rightarrow> f s)"

text \<open>The default \<open>deviceData = {}\<close> of the parse methods.\<close>

definition or_empty :: "jsval \<Rightarrow> jsval" where
  "or_empty deviceData = (if deviceData = JUndefined then JObj [] else deviceData)"

definition parseMeasuredTemperature :: "js_runtime \<Rightarrow> jsval \<Rightarrow> device \<Rightarrow> outcome" where
  "parseMeasuredTemperature rt deviceData0 s =
     (let deviceData = or_empty deviceData0 in
      (case hasOwnProperty deviceData ''units'' of
         Inl e \<Rightarrow> (Some e, s)
       | Inr False \<Rightarrow>
           (None, log_error s
              ''_parseMeasuredTemperature() -> expected device to have units property'')
       | Inr True \<Rightarrow>
           (case and_then (get_prop deviceData ''units'') (\<lambda>units.
                 and_then (get_prop deviceData ''indoorTemperature'') (\<lambda>reported.
                 and_then (if units \<noteq> JStr UNIT_CELSIUS
                           then ftoc_js (ToNumber rt) reported else Inr reported)
                   (\<lambda>indoorTemperature. Inr (units, indoorTemperature)))) of
              Inl e \<Rightarrow> (Some e, s)
            | Inr (units, indoorTemperature) \<Rightarrow>
                (None, setCapabilityValue (setSettings s ''units'' units)
                         ''measure_temperature'' indoorTemperature))))"

text \<open>\<open>Object.prototype.hasOwnProperty.call(deviceData.changeableValues, k)\<close>\<close>

definition changeableHas :: "jsval \<Rightarrow> string \<Rightarrow> error + bool" where
  "changeableHas deviceData k =
     and_then (get_prop deviceData ''changeableValues'') (\<lambda>values. hasOwnProperty values k)"

definition parseTargetTemperature :: "jsval \<Rightarrow> device \<Rightarrow> outcome" where
  "parseTargetTemperature deviceData0 s =
     (let deviceData = or_empty deviceData0 in
      (case changeableHas deviceData ''mode'' of
         Inl e \<Rightarrow> (Some e, s)
       | Inr False \<Rightarrow>
           (None, log_error s ''_parseTargetTemperature() -> expected device.changeableValues to have mode property'')
       | Inr True \<Rightarrow>
      (case changeableHas deviceData ''heatSetpoint'' of
         Inl e \<Rightarrow> (Some e, s)
       | Inr False \<Rightarrow>
           (None, log_error s ''_parseTargetTemperature() -> expected device.changeableValues to have heatSetpoint property'')
       | Inr True \<Rightarrow>
      (case changeableHas deviceData ''coolSetpoint'' of
         Inl e \<Rightarrow> (Some e, s)
       | Inr False \<Rightarrow>
           (None, log_error s ''_parseTargetTemperature() -> expected device.changeableValues to have coolSetpoint property'')
       | Inr True \<Rightarrow>
      (case changeable deviceData ''heatSetpoint'' of
         Inl e \<Rightarrow> (Some e, s)
       | Inr heat \<Rightarrow>
           (let s1 = setCapabilityValue s ''target_temperature'' heat in
            if hasCapability s1 ''target_temperature.cool''
            then (case changeable deviceData ''coolSetpoint'' of
                    Inl e \<Rightarrow> (Some e, s1)
                  | Inr cool \<Rightarrow> (None, setCapabilityValue s1 ''target_temperature.cool'' cool))
            else (None, s1)))))))"

text \<open>\<open>m.toLowerCase()\<close>: only a string has the method.\<close>

definition lower_case :: "js_runtime \<Rightarrow> jsval \<Rightarrow> error + jsval" where
  "lower_case rt m = (case m of JStr str \<Rightarrow> Inr (JStr (toLowerCase rt str)) | _ \<Rightarrow> Inl TypeError)"

definition parseThermostatMode :: "js_runtime \<Rightarrow> jsval \<Rightarrow> device \<Rightarrow> outcome" where
  "parseThermostatMode rt deviceData0 s =
     (let deviceData = or_empty deviceData0 in
      (case changeableHas deviceData ''mode'' of
         Inl e \<Rightarrow> (Some e, s)
       | Inr False \<Rightarrow>
           (None, log_error s ''_parseThermostatMode() -> expected device.changeableValues to have mode property'')
       | Inr True \<Rightarrow>
           (case and_then (changeable deviceData ''mode'') (lower_case rt) of
              Inl e \<Rightarrow> (Some e, s)
            | Inr m \<Rightarrow>
                (let s1 = (if getCapabilityValue s ''custom_thermostat_mode'' \<noteq> m
                           then trigger s m else s)
                 in (None, setCapabilityValue s1 ''custom_thermostat_mode'' m)))))"

definition parseACMode :: "jsval \<Rightarrow> device \<Rightarrow> outcome" where
  "parseACMode deviceData0 s =
     (let deviceData = or_empty deviceData0 in
      (case changeableHas deviceData ''mode'' of
         Inl e \<Rightarrow> (Some e, s)
       | Inr False \<Rightarrow>
           (None, log_error s ''_parseACMode() -> expected device.changeableValues to have mode property'')
       | Inr True \<Rightarrow>
           (case changeable deviceData ''mode'' of
              Inl e \<Rightarrow> (Some e, s)
            | Inr m \<Rightarrow> (None, setCapabilityValue s ''custom_ac_mode'' m))))"

text \<open>
  \<open>_parseAlive\<close>: the missing property is logged and the method goes on; the second test
  reads the availability again, after the first may have changed it.
\<close>

definition parseAlive :: "jsval \<Rightarrow> device \<Rightarrow> outcome" where
  "parseAlive deviceData0 s =
     (let deviceData = or_empty deviceData0 in
      (case hasOwnProperty deviceData ''isAlive'' of
         Inl e \<Rightarrow> (Some e, s)
       | Inr has \<Rightarrow>
           (let s1 = (if \<not> has
                      then log_error s ''_parseAlive() -> expected device to have isAlive property''
                      else s)
            in (case get_prop deviceData ''isAlive'' of
                  Inl e \<Rightarrow> (Some e, s1)
                | Inr isAlive \<Rightarrow>
                    (let s2 = (if getAvailable s1 = False \<and> truthy isAlive
                               then setAvailable s1 else s1);
                         s3 = (if getAvailable s2 = True \<and> \<not> truthy isAlive
                               then setUnavailable s2 ''unavailable'' else s2)
                     in (None, s3))))))"

definition parseFanMode :: "jsval \<Rightarrow> device \<Rightarrow> outcome" where
  "parseFanMode deviceData s =
     (case hasOwnProperty deviceData ''mode'' of
        Inl e \<Rightarrow> (Some e, s)
      | Inr False \<Rightarrow>
          (None, log_error s ''_parseThermostatMode() -> expected device to have mode property'')
      | Inr True \<Rightarrow>
          (case get_prop deviceData ''mode'' of
             Inl e \<Rightarrow> (Some e, s)
           | Inr m \<Rightarrow> (None, setCapabilityValue s ''fan_mode'' m)))"

text \<open>
  \<open>_fetchDeviceData\<close>. The calls between the test of \<open>changeableValues\<close> and the end of
  the first \<open>try\<close> block are \<open>parseDeviceData\<close>. \<open>fetchThermostatData\<close> is the first \<open>try\<close>
  statement: an error thrown inside it is caught and logged; its flag is true when the
  block ended with \<open>return\<close>, which leaves the whole method. \<open>fetchFanData\<close> is the second
  \<open>try\<close> statement. The outcomes of the two GET requests are the parameters
  \<open>remote\<close> and \<open>remote_fan\<close>; \<open>getFan\<close> of the client makes the checks of \<open>getDevice\<close>.
\<close>

definition parseDeviceData :: "js_runtime \<Rightarrow> jsval \<Rightarrow> device \<Rightarrow> outcome" where
  "parseDeviceData rt deviceData s =
     then_step (parseMeasuredTemperature rt deviceData s) (\<lambda>s.
     then_step (parseTargetTemperature deviceData s) (\<lambda>s.
     then_step (if hasCapability s ''custom_thermostat_mode''
                then parseThermostatMode rt deviceData s else (None, s)) (\<lambda>s.
     then_step (if hasCapability s ''custom_ac_mode''
                then parseACMode deviceData s else (None, s)) (\<lambda>s.
     parseAlive deviceData s))))"

definition fetchThermostatData ::
  "js_runtime \<Rightarrow> (error + jsval) \<Rightarrow> device \<Rightarrow> bool \<times> device" where
  "fetchThermostatData rt remote s =
     (case and_then (getLocationId s) (\<lambda>loc. getDevice remote loc (data_id s)) of
        Inl e \<Rightarrow> (False, log_error s ''_fetchDeviceData() -> failed to get device'')
      | Inr deviceData \<Rightarrow>
          (case hasOwnProperty deviceData ''changeableValues'' of
             Inl e \<Rightarrow> (False, log_error s ''_fetchDeviceData() -> failed to get device'')
           | Inr False \<Rightarrow>
               (True, log_error s
                  ''_fetchDeviceData() -> expected device to have changeableValues property'')
           | Inr True \<Rightarrow>
               (case parseDeviceData rt deviceData s of
                  (Some e, s') \<Rightarrow>
                    (False, log_error s' ''_fetchDeviceData() -> failed to get device'')
                | (None, s') \<Rightarrow> (False, s'))))"

definition getFan :: "(error + jsval) \<Rightarrow> jsval \<Rightarrow> jsval \<Rightarrow> error + jsval" where
  "getFan remote_fan locId devId =
     (if \<not> is_string devId then Inl (Error ''invalid_device_id'')
      else if \<not> is_string locId then Inl (Error ''invalid_location_id'')
      else remote_fan)"

definition fetchFanData :: "(error + jsval) \<Rightarrow> device \<Rightarrow> device" where
  "fetchFanData remote_fan s =
     (case and_then (getLocationId s) (\<lambda>loc. getFan remote_fan loc (data_id s)) of
        Inl e \<Rightarrow> log_error s ''_fetchFanData() -> failed to get fan''
      | Inr deviceData \<Rightarrow>
          (case parseFanMode deviceData s of
             (Some e, s') \<Rightarrow> log_error s' ''_fetchFanData() -> failed to get fan''
           | (None, s') \<Rightarrow> s'))"

definition fetchDeviceData ::
  "js_runtime \<Rightarrow> (error + jsval) \<Rightarrow> (error + jsval) \<Rightarrow> device \<Rightarrow> device" where
  "fetchDeviceData rt remote remote_fan s =
     (case fetchThermostatData rt remote s of
        (True, s') \<Rightarrow> s'
      | (False, s') \<Rightarrow>
          if hasCapability s' ''fan_mode'' then fetchFanData remote_fan s' else s')"




section \<open>The rate-limit signature\<close>

text \<open>
  The signature of a rate limit as the specification words it: the body has a \<open>fault\<close>
  field whose \<open>faultstring\<close> field contains the message. \<open>faultstring_of\<close> is that field
  (of an object \<open>fault\<close> of an object body), and \<open>contains_message\<close> is containment: of a
  substring in a string, and of an element in an array, the two kinds of value on which
  \<open>includes\<close> is defined.
\<close>

fun faultstring_of :: "jsval \<Rightarrow> jsval option" where
  "faultstring_of (JObj kvs) =
     (case map_of kvs ''fault'' of
        Some (JObj fault) \<Rightarrow> map_of fault ''faultstring''
      | _ \<Rightarrow> None)"
| "faultstring_of body = None"

fun contains_message :: "jsval \<Rightarrow> bool" where
  "contains_message (JStr s) = sublist RATE_LIMIT_MESSAGE s"
| "contains_message (JArr xs) = (JStr RATE_LIMIT_MESSAGE \<in> set xs)"
| "contains_message v = False"

definition rate_limit_signature :: "jsval \<Rightarrow> bool" where
  "rate_limit_signature body =
     (case faultstring_of body of Some fs \<Rightarrow> contains_message fs | None \<Rightarrow> False)"

section \<open>Example values\<close>

text \<open>
  A client, a thermostat snapshot as the vendor API returns it (with a given
  \<open>thermostatSetpointStatus\<close> and further \<open>changeableValues\<close>), and the arguments of a
  write that supplies a heat setpoint and a status; the theorems below are instantiated
  at these.
\<close>

definition example_client :: client where
  "example_client = \<lparr>stored_token = None, tokenUrl = ''https://api.honeywell.com/oauth2/token'',
                      API_KEY = ''key'', API_SECRET = ''secret'', effects = []\<rparr>"

definition example_snapshot :: "jsval \<Rightarrow> (string \<times> jsval) list \<Rightarrow> jsval" where
  "example_snapshot st extra =
     JObj [(''deviceID'', JStr ''LCC-1''),
           (''changeableValues'',
              JObj ([(''mode'', JStr ''Heat''), (''heatSetpoint'', JNum 20),
                     (''coolSetpoint'', JNum 25), (''thermostatSetpointStatus'', st)] @ extra))]"

definition example_args :: "jsval \<Rightarrow> jsval \<Rightarrow> thermostat_args" where
  "example_args heat st =
     \<lparr>mode = JUndefined, heatSetpoint = heat, coolSetpoint = JUndefined,
      thermostatSetpointStatus = st, locationId = JStr ''123'', deviceId = JStr ''LCC-1''\<rparr>"

section \<open>Observing availability\<close>

text \<open>
  The calls of \<open>setAvailable\<close> and \<open>setUnavailable\<close> among the effects of a device, and
  the call that an edge between the availability flag and the reported aliveness asks
  for.
\<close>

fun is_availability_call :: "device_event \<Rightarrow> bool" where
  "is_availability_call SetAvailable = True"
| "is_availability_call (SetUnavailable msg) = True"
| "is_availability_call e = False"

definition availability_calls :: "device \<Rightarrow> device_event list" where
  "availability_calls s = filter is_availability_call (happened s)"

definition edge :: "bool \<Rightarrow> bool \<Rightarrow> device_event list" where
  "edge was alive =
     (if \<not> was \<and> alive then [SetAvailable]
      else if was \<and> \<not> alive then [SetUnavailable ''unavailable'']
      else [])"

section \<open>Example devices and payloads\<close>

text \<open>
  A run-time for the examples (its number conversion answers \<open>NaN\<close>, which is right for
  the values of the examples: none is a numeric string or an array), a paired device with
  a given availability and unit setting, and a thermostat payload with given top-level
  fields.
\<close>

definition ascii_lower :: "char \<Rightarrow> char" where
  "ascii_lower ch =
     (if 65 \<le> (of_char ch :: nat) \<and> (of_char ch :: nat) \<le> 90
      then char_of (of_char ch + 32 :: nat) else ch)"

definition example_runtime :: js_runtime where
  "example_runtime = \<lparr>ToNumber = (\<lambda>v. Inr None), toLowerCase = map ascii_lower\<rparr>"

definition example_device :: "bool \<Rightarrow> jsval \<Rightarrow> device" where
  "example_device avail units =
     \<lparr>capabilities = {''measure_temperature'', ''target_temperature'', ''target_temperature.cool''},
      capabilityValues = (\<lambda>k. JNull),
      settings = (\<lambda>k. JUndefined)(''units'' := units),
      available = avail,
      store_locationId = JStr ''123'',
      data_id = JStr ''LCC-1'',
      happened = []\<rparr>"

definition example_payload :: "(string \<times> jsval) list \<Rightarrow> jsval" where
  "example_payload reported =
     JObj (reported @
           [(''deviceID'', JStr ''LCC-1''),
            (''changeableValues'',
               JObj [(''mode'', JStr ''Heat''), (''heatSetpoint'', JNum 68),
                     (''coolSetpoint'', JNum 77),
                     (''thermostatSetpointStatus'', JStr ''NoHold'')])])"

section \<open>Rate-limit detection\<close>

lemma includes_contains:
  "js_includes v RATE_LIMIT_MESSAGE = Inr b
     \<longleftrightarrow> (is_string v \<or> (\<exists>xs. v = JArr xs)) \<and> contains_message v = b"
  by (cases v) auto

lemma includes_error:
  "js_includes v RATE_LIMIT_MESSAGE = Inl e \<Longrightarrow> \<not> contains_message v"
  by (cases v) auto

lemma detect_returns_true:
  "(fst (detectRateLimit body) = Inr True) = rate_limit_signature body"
  by (cases body)
     (auto simp: detectRateLimit_def rate_limit_signature_def Let_def and_then_def
                 includes_contains
           split: option.splits jsval.splits sum.splits bool.splits dest: includes_error)

lemma detect_emits:
  "(Emit ''rateLimited'' \<in> set (snd (detectRateLimit body))) = rate_limit_signature body"
  by (cases body)
     (auto simp: detectRateLimit_def rate_limit_signature_def Let_def and_then_def
                 includes_contains
           split: option.splits jsval.splits sum.splits bool.splits dest: includes_error)

text \<open>
  C1. The detector returns true, and emits \<open>rateLimited\<close> to the subscribers, exactly when
  the body has a \<open>fault\<close> field whose \<open>faultstring\<close> field contains the message
  \<open>Rate limit quota violation.\<close>; for a \<open>faultstring\<close> that is a string this is the
  substring test (on an array, \<open>includes\<close> looks for the message as an element), and a body
  without such a field (any other shape) is never classified.
  For every failing response (a status other than 204 that is not \<open>ok\<close>) whose body could
  be read, \<open>onHandleResponse\<close> emits \<open>rateLimited\<close> exactly when the body has the signature;
  when the body could not be read nothing is emitted. The detection comes before the
  generic classification: on a body with the signature the effects of \<open>onHandleNotOK\<close> are
  the log line, the \<open>rateLimited\<close> event and only then the call of the inherited handler,
  whose result is the one returned.
\<close>

theorem rate_limit_detection:
  "(fst (detectRateLimit body) = Inr True) = rate_limit_signature body
   \<and> (Emit ''rateLimited'' \<in> set (snd (detectRateLimit body))) = rate_limit_signature body
   \<and> (faultstring_of body = Some (JStr s)
        \<longrightarrow> rate_limit_signature body = sublist ''Rate limit quota violation.'' s)
   \<and> (faultstring_of body = Some (JArr xs)
        \<longrightarrow> rate_limit_signature body = (JStr ''Rate limit quota violation.'' \<in> set xs))
   \<and> (faultstring_of body = None \<longrightarrow> \<not> rate_limit_signature body)
   \<and> (status r \<noteq> 204 \<and> \<not> ok r \<and> readBody JSON_parse r = Inr body
        \<longrightarrow> (Emit ''rateLimited'' \<in> set (snd (onHandleResponse JSON_parse super r)))
            = rate_limit_signature body)
   \<and> (status r \<noteq> 204 \<and> \<not> ok r \<and> readBody JSON_parse r = Inl e
        \<longrightarrow> onHandleResponse JSON_parse super r = (Inl e, []))
   \<and> (rate_limit_signature body
        \<longrightarrow> (\<exists>fault. onHandleNotOK super body r
              = (super body r,
                 [LogError fault, Emit ''rateLimited'', SuperOnHandleNotOK body])))"
proof -
  have emits: "(Emit ''rateLimited'' \<in> set (snd (detectRateLimit body)))
                 = rate_limit_signature body"
    by (rule detect_emits)
  have of_string: "faultstring_of body = Some (JStr s)
        \<longrightarrow> rate_limit_signature body = sublist ''Rate limit quota violation.'' s"
    by (simp add: rate_limit_signature_def RATE_LIMIT_MESSAGE_def)
  have of_array: "faultstring_of body = Some (JArr xs)
        \<longrightarrow> rate_limit_signature body = (JStr ''Rate limit quota violation.'' \<in> set xs)"
    by (simp add: rate_limit_signature_def RATE_LIMIT_MESSAGE_def)
  have other_shape: "faultstring_of body = None \<longrightarrow> \<not> rate_limit_signature body"
    by (simp add: rate_limit_signature_def)
  have response: "status r \<noteq> 204 \<and> \<not> ok r \<and> readBody JSON_parse r = Inr body
        \<longrightarrow> (Emit ''rateLimited'' \<in> set (snd (onHandleResponse JSON_parse super r)))
            = rate_limit_signature body"
    using emits
    by (auto simp: onHandleResponse_def onHandleNotOK_def
             split: prod.splits sum.splits option.splits)
  have unread: "status r \<noteq> 204 \<and> \<not> ok r \<and> readBody JSON_parse r = Inl e
        \<longrightarrow> onHandleResponse JSON_parse super r = (Inl e, [])"
    by (simp add: onHandleResponse_def)
  have before: "rate_limit_signature body
        \<longrightarrow> (\<exists>fault. onHandleNotOK super body r
              = (super body r,
                 [LogError fault, Emit ''rateLimited'', SuperOnHandleNotOK body]))"
    by (cases body)
       (auto simp: onHandleNotOK_def detectRateLimit_def rate_limit_signature_def Let_def
                   and_then_def includes_contains
             split: option.splits jsval.splits sum.splits bool.splits dest: includes_error)
  from detect_returns_true emits of_string of_array other_shape response unread before
  show ?thesis by blast
qed

theorem rate_limit_detection_witness:
  "Emit ''rateLimited'' \<in> set (snd (onHandleResponse
      (\<lambda>t. Inr (JObj [(''fault'',
              JObj [(''faultstring'', JStr ''xx Rate limit quota violation. yy'')])]))
      (\<lambda>b r. Inr (Some (Error ''500 Internal Server Error'')))
      \<lparr>status = 500, statusText = ''Internal Server Error'',
       contentType = Some ''application/json'', body_text = ''{}'', ok = False\<rparr>))
   \<and> Emit ''rateLimited'' \<notin> set (snd (onHandleResponse
      (\<lambda>t. Inr (JObj [(''fault'', JObj [(''faultstring'', JStr ''other'')])]))
      (\<lambda>b r. Inr (Some (Error ''500 Internal Server Error'')))
      \<lparr>status = 500, statusText = ''Internal Server Error'',
       contentType = Some ''application/json'', body_text = ''{}'', ok = False\<rparr>))"
  using rate_limit_detection
      [where body = "JObj [(''fault'',
             JObj [(''faultstring'', JStr ''xx Rate limit quota violation. yy'')])]"
         and r = "\<lparr>status = 500, statusText = ''Internal Server Error'',
              contentType = Some ''application/json'', body_text = ''{}'', ok = False\<rparr>"
         and JSON_parse = "\<lambda>t. Inr (JObj [(''fault'',
             JObj [(''faultstring'', JStr ''xx Rate limit quota violation. yy'')])])"
         and super = "\<lambda>b r. Inr (Some (Error ''500 Internal Server Error''))"]
    rate_limit_detection
      [where body = "JObj [(''fault'', JObj [(''faultstring'', JStr ''other'')])]"
         and r = "\<lparr>status = 500, statusText = ''Internal Server Error'',
              contentType = Some ''application/json'', body_text = ''{}'', ok = False\<rparr>"
         and JSON_parse = "\<lambda>t. Inr (JObj [(''fault'', JObj [(''faultstring'', JStr ''other'')])])"
         and super = "\<lambda>b r. Inr (Some (Error ''500 Internal Server Error''))"]
  by (simp add: readBody_def rate_limit_signature_def RATE_LIMIT_MESSAGE_def sublist_code)

section \<open>Interpreting a response\<close>





lemma detectRateLimit_null: "detectRateLimit JNull = (Inl TypeError, [])"
  by (simp add: detectRateLimit_def)




section \<open>Refreshing the token\<close>

text \<open>
  C8. \<open>onRefreshToken\<close> fails with an \<open>OAuth2Error\<close>, leaving the client as it was and
  sending nothing, when no token is stored or the stored token is not refreshable.
  Otherwise it sends one request: a POST to the token URL with the refresh grant and the
  refresh token as parameters and the header \<open>Authorization: Basic base64(id:secret)\<close>.
  When that request succeeds and the response is accepted, the new token replaces the
  stored one, \<open>save\<close> is called with the new token stored, and the new token is returned.
\<close>

theorem onRefreshToken_cases:
  "(getToken c = None
      \<longrightarrow> onRefreshToken lib c = (Inl (Thrown (OAuth2Error ''Missing Token'')), c))
   \<and> (getToken c = Some t \<and> \<not> isRefreshable lib t
      \<longrightarrow> onRefreshToken lib c = (Inl (Thrown (OAuth2Error ''Token cannot be refreshed'')), c))
   \<and> (getToken c = Some t \<and> isRefreshable lib t
        \<and> fetch lib (refreshRequest lib c t) = Inr response \<and> ok response
        \<and> onHandleRefreshTokenResponse lib response = Inr t'
      \<longrightarrow> fst (onRefreshToken lib c) = Inr (Some t')
          \<and> getToken (snd (onRefreshToken lib c)) = Some t'
          \<and> effects (snd (onRefreshToken lib c))
              = effects c @ [Fetch (refreshRequest lib c t), Save (Some t')])
   \<and> url (refreshRequest lib c t) = tokenUrl c
   \<and> http_method (refreshRequest lib c t) = ''POST''
   \<and> headers (refreshRequest lib c t)
        = [(''Authorization'', ''Basic '' @ base64 lib (API_KEY c @ '':'' @ API_SECRET c))]
   \<and> params (refreshRequest lib c t)
        = [(''grant_type'', JStr ''refresh_token''), (''refresh_token'', refresh_token t)]"
  by (simp add: onRefreshToken_def refreshRequest_def authorization_def getToken_def Let_def)

theorem onRefreshToken_cases_witness:
  "onRefreshToken
      \<lparr>isRefreshable = (\<lambda>t. truthy (refresh_token t)),
       fetch = (\<lambda>req. Inr \<lparr>status = 200, statusText = ''OK'',
                  contentType = Some ''application/json'', body_text = ''{}'', ok = True\<rparr>),
       onHandleRefreshTokenResponse =
         (\<lambda>r. Inr \<lparr>access_token = JStr ''a2'', refresh_token = JStr ''r2''\<rparr>),
       base64 = (\<lambda>s. s)\<rparr>
      \<lparr>stored_token = None, tokenUrl = ''https://api.honeywell.com/oauth2/token'',
       API_KEY = ''id'', API_SECRET = ''secret'', effects = []\<rparr>
    = (Inl (Thrown (OAuth2Error ''Missing Token'')),
       \<lparr>stored_token = None, tokenUrl = ''https://api.honeywell.com/oauth2/token'',
        API_KEY = ''id'', API_SECRET = ''secret'', effects = []\<rparr>)
   \<and> fst (onRefreshToken
      \<lparr>isRefreshable = (\<lambda>t. truthy (refresh_token t)),
       fetch = (\<lambda>req. Inr \<lparr>status = 200, statusText = ''OK'',
                  contentType = Some ''application/json'', body_text = ''{}'', ok = True\<rparr>),
       onHandleRefreshTokenResponse =
         (\<lambda>r. Inr \<lparr>access_token = JStr ''a2'', refresh_token = JStr ''r2''\<rparr>),
       base64 = (\<lambda>s. s)\<rparr>
      \<lparr>stored_token = Some \<lparr>access_token = JStr ''a1'', refresh_token = JUndefined\<rparr>,
       tokenUrl = ''https://api.honeywell.com/oauth2/token'',
       API_KEY = ''id'', API_SECRET = ''secret'', effects = []\<rparr>)
    = Inl (Thrown (OAuth2Error ''Token cannot be refreshed''))
   \<and> fst (onRefreshToken
      \<lparr>isRefreshable = (\<lambda>t. truthy (refresh_token t)),
       fetch = (\<lambda>req. Inr \<lparr>status = 200, statusText = ''OK'',
                  contentType = Some ''application/json'', body_text = ''{}'', ok = True\<rparr>),
       onHandleRefreshTokenResponse =
         (\<lambda>r. Inr \<lparr>access_token = JStr ''a2'', refresh_token = JStr ''r2''\<rparr>),
       base64 = (\<lambda>s. s)\<rparr>
      \<lparr>stored_token = Some \<lparr>access_token = JStr ''a1'', refresh_token = JStr ''r1''\<rparr>,
       tokenUrl = ''https://api.honeywell.com/oauth2/token'',
       API_KEY = ''id'', API_SECRET = ''secret'', effects = []\<rparr>)
    = Inr (Some \<lparr>access_token = JStr ''a2'', refresh_token = JStr ''r2''\<rparr>)"
  using onRefreshToken_cases
      [of "\<lparr>stored_token = None, tokenUrl = ''https://api.honeywell.com/oauth2/token'',
       API_KEY = ''id'', API_SECRET = ''secret'', effects = []\<rparr>"
       "\<lparr>isRefreshable = (\<lambda>t. truthy (refresh_token t)),
       fetch = (\<lambda>req. Inr \<lparr>status = 200, statusText = ''OK'',
                  contentType = Some ''application/json'', body_text = ''{}'', ok = True\<rparr>),
       onHandleRefreshTokenResponse =
         (\<lambda>r. Inr \<lparr>access_token = JStr ''a2'', refresh_token = JStr ''r2''\<rparr>),
       base64 = (\<lambda>s. s)\<rparr>"]
    onRefreshToken_cases
      [of "\<lparr>stored_token = Some \<lparr>access_token = JStr ''a1'', refresh_token = JUndefined\<rparr>,
       tokenUrl = ''https://api.honeywell.com/oauth2/token'',
       API_KEY = ''id'', API_SECRET = ''secret'', effects = []\<rparr>"
       "\<lparr>isRefreshable = (\<lambda>t. truthy (refresh_token t)),
       fetch = (\<lambda>req. Inr \<lparr>status = 200, statusText = ''OK'',
                  contentType = Some ''application/json'', body_text = ''{}'', ok = True\<rparr>),
       onHandleRefreshTokenResponse =
         (\<lambda>r. Inr \<lparr>access_token = JStr ''a2'', refresh_token = JStr ''r2''\<rparr>),
       base64 = (\<lambda>s. s)\<rparr>"
       "\<lparr>access_token = JStr ''a1'', refresh_token = JUndefined\<rparr>"]
    onRefreshToken_cases
      [of "\<lparr>stored_token = Some \<lparr>access_token = JStr ''a1'', refresh_token = JStr ''r1''\<rparr>,
       tokenUrl = ''https://api.honeywell.com/oauth2/token'',
       API_KEY = ''id'', API_SECRET = ''secret'', effects = []\<rparr>"
       "\<lparr>isRefreshable = (\<lambda>t. truthy (refresh_token t)),
       fetch = (\<lambda>req. Inr \<lparr>status = 200, statusText = ''OK'',
                  contentType = Some ''application/json'', body_text = ''{}'', ok = True\<rparr>),
       onHandleRefreshTokenResponse =
         (\<lambda>r. Inr \<lparr>access_token = JStr ''a2'', refresh_token = JStr ''r2''\<rparr>),
       base64 = (\<lambda>s. s)\<rparr>"
       "\<lparr>access_token = JStr ''a1'', refresh_token = JStr ''r1''\<rparr>"
       "\<lparr>status = 200, statusText = ''OK'',
                  contentType = Some ''application/json'', body_text = ''{}'', ok = True\<rparr>"
       "\<lparr>access_token = JStr ''a2'', refresh_token = JStr ''r2''\<rparr>"]
  by (simp add: getToken_def)

section \<open>Composing a thermostat write\<close>

lemma changeable_Inr:
  "changeable d k = Inr v \<longleftrightarrow>
     (\<exists>values. get_prop d ''changeableValues'' = Inr values \<and> get_prop values k = Inr v)"
  by (auto simp: changeable_def and_then_def split: sum.splits)

lemma get_prop_other:
  "get_prop values k = Inr v \<Longrightarrow> \<exists>v'. get_prop values k' = Inr v'"
  by (cases "values") auto

lemma changeable_other:
  "changeable d k = Inr v \<Longrightarrow> \<exists>v'. changeable d k' = Inr v'"
  unfolding changeable_Inr using get_prop_other by blast

lemma or_changeable_Inr:
  "changeable d k = Inr v \<Longrightarrow> or_changeable a d k = Inr (js_or a v)"
  by (simp add: or_changeable_def js_or_def)

lemma merge_explicit:
  assumes "changeable d ''mode'' = Inr m0"
      and "changeable d ''heatSetpoint'' = Inr h0"
      and "changeable d ''coolSetpoint'' = Inr c0"
      and "changeable d ''thermostatSetpointStatus'' = Inr st0"
      and "changeable d ''autoChangeoverActive'' = Inr aca"
  shows "mergeThermostatJson args d =
           Inr \<lparr>mode = js_or (mode args) m0, heatSetpoint = js_or (heatSetpoint args) h0,
                coolSetpoint = js_or (coolSetpoint args) c0,
                thermostatSetpointStatus = js_or (thermostatSetpointStatus args) st0,
                autoChangeoverActive = (if is_boolean aca then Some aca else None),
                nextPeriodTime = None\<rparr>"
  using assms by (simp add: mergeThermostatJson_def and_then_def or_changeable_Inr)

lemma merge_no_nextPeriodTime:
  "mergeThermostatJson args d = Inr merged \<Longrightarrow> nextPeriodTime merged = None"
  by (auto simp: mergeThermostatJson_def and_then_def split: sum.splits)

lemmas ex_defs = example_client_def example_snapshot_def example_args_def
lemmas run_defs = sendThermostatData_def getDeviceData_def getDevice_def mergeThermostatJson_def
  applyHoldPolicy_def changeable_def or_changeable_def and_then_def

text \<open>
  C2. For every thermostat write whose device read is accepted and whose merged JSON has
  the status \<open>HoldUntil\<close>, the command is posted, and: if \<open>changeableValues\<close> of the
  snapshot has a string \<open>nextPeriodTime\<close>, the posted status is \<open>HoldUntil\<close> and the
  command carries that \<open>nextPeriodTime\<close>; otherwise the posted status is
  \<open>PermanentHold\<close> and the command carries no \<open>nextPeriodTime\<close>.
\<close>

theorem hold_until_policy:
  assumes "getDeviceData remote (locationId args) (deviceId args) = Inr deviceData"
      and "mergeThermostatJson args deviceData = Inr merged"
      and "thermostatSetpointStatus merged = JStr ''HoldUntil''"
      and "changeable deviceData ''nextPeriodTime'' = Inr npt"
  shows "\<exists>req. sendThermostatData c remote args = Inr req
           \<and> (is_string npt \<longrightarrow>
                thermostatSetpointStatus (json req) = JStr ''HoldUntil''
                \<and> nextPeriodTime (json req) = Some npt)
           \<and> (\<not> is_string npt \<longrightarrow>
                thermostatSetpointStatus (json req) = JStr ''PermanentHold''
                \<and> nextPeriodTime (json req) = None)"
  using assms merge_no_nextPeriodTime [OF assms(2)]
  by (simp add: sendThermostatData_def and_then_def applyHoldPolicy_def)

theorem hold_until_policy_witness:
  "(\<exists>req. sendThermostatData example_client (Inr (example_snapshot (JStr ''NoHold'') []))
             (example_args (JNum 21) (JStr ''HoldUntil'')) = Inr req
          \<and> thermostatSetpointStatus (json req) = JStr ''PermanentHold''
          \<and> nextPeriodTime (json req) = None)
   \<and> (\<exists>req. sendThermostatData example_client
             (Inr (example_snapshot (JStr ''NoHold'') [(''nextPeriodTime'', JStr ''18:00:00'')]))
             (example_args (JNum 21) (JStr ''HoldUntil'')) = Inr req
          \<and> thermostatSetpointStatus (json req) = JStr ''HoldUntil''
          \<and> nextPeriodTime (json req) = Some (JStr ''18:00:00''))"
proof -
  let ?args = "example_args (JNum 21) (JStr ''HoldUntil'')"
  let ?d1 = "example_snapshot (JStr ''NoHold'') []"
  let ?d2 = "example_snapshot (JStr ''NoHold'') [(''nextPeriodTime'', JStr ''18:00:00'')]"
  let ?merged = "\<lparr>mode = JStr ''Heat'', heatSetpoint = JNum 21, coolSetpoint = JNum 25,
                  thermostatSetpointStatus = JStr ''HoldUntil'',
                  autoChangeoverActive = None, nextPeriodTime = None\<rparr>"
  have g1: "getDeviceData (Inr ?d1) (locationId ?args) (deviceId ?args) = Inr ?d1"
    by (simp add: ex_defs getDeviceData_def getDevice_def and_then_def)
  have m1: "mergeThermostatJson ?args ?d1 = Inr ?merged"
    by (simp add: ex_defs mergeThermostatJson_def changeable_def or_changeable_def and_then_def)
  have n1: "changeable ?d1 ''nextPeriodTime'' = Inr JUndefined"
    by (simp add: ex_defs changeable_def and_then_def)
  have g2: "getDeviceData (Inr ?d2) (locationId ?args) (deviceId ?args) = Inr ?d2"
    by (simp add: ex_defs getDeviceData_def getDevice_def and_then_def)
  have m2: "mergeThermostatJson ?args ?d2 = Inr ?merged"
    by (simp add: ex_defs mergeThermostatJson_def changeable_def or_changeable_def and_then_def)
  have n2: "changeable ?d2 ''nextPeriodTime'' = Inr (JStr ''18:00:00'')"
    by (simp add: ex_defs changeable_def and_then_def)
  show ?thesis
    using hold_until_policy [OF g1 m1 _ n1, of example_client]
          hold_until_policy [OF g2 m2 _ n2, of example_client]
    by simp
qed

text \<open>
  C3, as the code has it. A supplied value is used only when it is truthy: a setpoint of
  0 is replaced by the snapshot's, and with an empty partial a snapshot status of
  \<open>HoldUntil\<close> without a string \<open>nextPeriodTime\<close> is posted as \<open>PermanentHold\<close>.
\<close>

theorem thermostat_write_counterexample:
  "sendThermostatData example_client (Inr (example_snapshot (JStr ''NoHold'') []))
      (example_args (JNum 0) JUndefined)
     = Inr \<lparr>path_deviceId = JStr ''LCC-1'', path_locationId = JStr ''123'',
            path_apikey = ''key'',
            json = \<lparr>mode = JStr ''Heat'', heatSetpoint = JNum 20, coolSetpoint = JNum 25,
                    thermostatSetpointStatus = JStr ''NoHold'',
                    autoChangeoverActive = None, nextPeriodTime = None\<rparr>\<rparr>
   \<and> sendThermostatData example_client (Inr (example_snapshot (JStr ''HoldUntil'') []))
      (example_args JUndefined JUndefined)
     = Inr \<lparr>path_deviceId = JStr ''LCC-1'', path_locationId = JStr ''123'',
            path_apikey = ''key'',
            json = \<lparr>mode = JStr ''Heat'', heatSetpoint = JNum 20, coolSetpoint = JNum 25,
                    thermostatSetpointStatus = JStr ''PermanentHold'',
                    autoChangeoverActive = None, nextPeriodTime = None\<rparr>\<rparr>"
  by (simp add: ex_defs run_defs hasOwnProperty.simps)

text \<open>
  C3, amended. For every partial write and every accepted snapshot the command is posted
  and takes each of \<open>mode\<close>, \<open>heatSetpoint\<close>, \<open>coolSetpoint\<close> from the partial when that
  value is truthy and otherwise from \<open>changeableValues\<close> of the snapshot; the status is
  merged the same way and then put through the \<open>HoldUntil\<close> rule. With an empty
  partial the command has the snapshot's mode and setpoints, and the snapshot's status
  unless that is \<open>HoldUntil\<close> without a string \<open>nextPeriodTime\<close>. A boolean
  \<open>autoChangeoverActive\<close> of the snapshot is copied into the command, whatever the
  partial is.
\<close>

theorem thermostat_write_merge:
  assumes "getDeviceData remote (locationId args) (deviceId args) = Inr deviceData"
      and "changeable deviceData ''mode'' = Inr m0"
      and "changeable deviceData ''heatSetpoint'' = Inr h0"
      and "changeable deviceData ''coolSetpoint'' = Inr c0"
      and "changeable deviceData ''thermostatSetpointStatus'' = Inr st0"
      and "changeable deviceData ''autoChangeoverActive'' = Inr aca"
      and "changeable deviceData ''nextPeriodTime'' = Inr npt"
  shows "\<exists>req. sendThermostatData c remote args = Inr req
           \<and> mode (json req) = (if truthy (mode args) then mode args else m0)
           \<and> heatSetpoint (json req)
               = (if truthy (heatSetpoint args) then heatSetpoint args else h0)
           \<and> coolSetpoint (json req)
               = (if truthy (coolSetpoint args) then coolSetpoint args else c0)
           \<and> thermostatSetpointStatus (json req)
               = (let st = (if truthy (thermostatSetpointStatus args)
                            then thermostatSetpointStatus args else st0)
                  in if st = JStr ''HoldUntil'' \<and> \<not> is_string npt
                     then JStr ''PermanentHold'' else st)
           \<and> autoChangeoverActive (json req) = (if is_boolean aca then Some aca else None)
           \<and> (mode args = JUndefined \<and> heatSetpoint args = JUndefined
                \<and> coolSetpoint args = JUndefined \<and> thermostatSetpointStatus args = JUndefined
               \<longrightarrow> mode (json req) = m0 \<and> heatSetpoint (json req) = h0
                   \<and> coolSetpoint (json req) = c0
                   \<and> thermostatSetpointStatus (json req)
                       = (if st0 = JStr ''HoldUntil'' \<and> \<not> is_string npt
                          then JStr ''PermanentHold'' else st0))"
  using assms(1,7) merge_explicit [OF assms(2-6), of args]
  by (auto simp: sendThermostatData_def and_then_def applyHoldPolicy_def js_or_def Let_def)

theorem thermostat_write_merge_witness:
  "\<exists>req. sendThermostatData example_client
            (Inr (example_snapshot (JStr ''NoHold'') [(''autoChangeoverActive'', JBool False)]))
            (example_args (JNum 21) JUndefined) = Inr req
         \<and> mode (json req) = JStr ''Heat''
         \<and> heatSetpoint (json req) = JNum 21
         \<and> coolSetpoint (json req) = JNum 25
         \<and> thermostatSetpointStatus (json req) = JStr ''NoHold''
         \<and> autoChangeoverActive (json req) = Some (JBool False)"
proof -
  let ?args = "example_args (JNum 21) JUndefined"
  let ?d = "example_snapshot (JStr ''NoHold'') [(''autoChangeoverActive'', JBool False)]"
  have accepted: "getDeviceData (Inr ?d) (locationId ?args) (deviceId ?args) = Inr ?d"
    by (simp add: ex_defs getDeviceData_def getDevice_def and_then_def)
  have m: "changeable ?d ''mode'' = Inr (JStr ''Heat'')"
    by (simp add: ex_defs changeable_def and_then_def)
  have h: "changeable ?d ''heatSetpoint'' = Inr (JNum 20)"
    by (simp add: ex_defs changeable_def and_then_def)
  have c: "changeable ?d ''coolSetpoint'' = Inr (JNum 25)"
    by (simp add: ex_defs changeable_def and_then_def)
  have st: "changeable ?d ''thermostatSetpointStatus'' = Inr (JStr ''NoHold'')"
    by (simp add: ex_defs changeable_def and_then_def)
  have aca: "changeable ?d ''autoChangeoverActive'' = Inr (JBool False)"
    by (simp add: ex_defs changeable_def and_then_def)
  have npt: "changeable ?d ''nextPeriodTime'' = Inr JUndefined"
    by (simp add: ex_defs changeable_def and_then_def)
  show ?thesis
    using thermostat_write_merge [OF accepted m h c st aca npt, of example_client]
    by (simp add: example_args_def)
qed

section \<open>Reconciliation\<close>

lemmas device_ex_defs = example_runtime_def example_device_def example_payload_def

lemmas access_defs = or_empty_def changeableHas_def changeable_def and_then_def
  getSetting_def getCapabilityValue_def hasCapability_def availability_calls_def

lemma parseAlive_step:
  assumes "get_prop (or_empty d) ''isAlive'' = Inr v"
  shows "fst (parseAlive d s) = None"
    and "available (snd (parseAlive d s)) = truthy v"
    and "availability_calls (snd (parseAlive d s))
           = availability_calls s @ edge (available s) (truthy v)"
    and "capabilityValues (snd (parseAlive d s)) = capabilityValues s"
    and "settings (snd (parseAlive d s)) = settings s"
    and "capabilities (snd (parseAlive d s)) = capabilities s"
  using assms
  by (cases "or_empty d";
      auto simp: parseAlive_def Let_def getAvailable_def setAvailable_def setUnavailable_def
                 log_error_def availability_calls_def edge_def)+

lemmas platform_defs = setCapabilityValue_def setSettings_def log_error_def trigger_def
  getCapabilityValue_def hasCapability_def

lemma parseMeasuredTemperature_frame:
  assumes "parseMeasuredTemperature rt d s = (r, s')"
  shows "available s' = available s \<and> availability_calls s' = availability_calls s
         \<and> capabilities s' = capabilities s
         \<and> (k \<noteq> ''measure_temperature'' \<longrightarrow> capabilityValues s' k = capabilityValues s k)"
  using assms
  by (auto simp: parseMeasuredTemperature_def Let_def platform_defs availability_calls_def
           split: sum.splits bool.splits prod.splits)

lemma parseTargetTemperature_frame:
  assumes "parseTargetTemperature d s = (r, s')"
  shows "available s' = available s \<and> availability_calls s' = availability_calls s
         \<and> capabilities s' = capabilities s \<and> settings s' = settings s
         \<and> (k \<noteq> ''target_temperature'' \<and> k \<noteq> ''target_temperature.cool''
              \<longrightarrow> capabilityValues s' k = capabilityValues s k)"
  using assms
  by (auto simp: parseTargetTemperature_def Let_def platform_defs availability_calls_def
           split: sum.splits bool.splits prod.splits if_splits)

lemma parseThermostatMode_frame:
  assumes "parseThermostatMode rt d s = (r, s')"
  shows "available s' = available s \<and> availability_calls s' = availability_calls s
         \<and> capabilities s' = capabilities s \<and> settings s' = settings s
         \<and> (k \<noteq> ''custom_thermostat_mode'' \<longrightarrow> capabilityValues s' k = capabilityValues s k)"
  using assms
  by (auto simp: parseThermostatMode_def Let_def platform_defs availability_calls_def
           split: sum.splits bool.splits prod.splits if_splits)

lemma parseACMode_frame:
  assumes "parseACMode d s = (r, s')"
  shows "available s' = available s \<and> availability_calls s' = availability_calls s
         \<and> capabilities s' = capabilities s \<and> settings s' = settings s
         \<and> (k \<noteq> ''custom_ac_mode'' \<longrightarrow> capabilityValues s' k = capabilityValues s k)"
  using assms
  by (auto simp: parseACMode_def Let_def platform_defs availability_calls_def
           split: sum.splits bool.splits prod.splits if_splits)

lemma parseFanMode_frame:
  assumes "parseFanMode d s = (r, s')"
  shows "available s' = available s \<and> availability_calls s' = availability_calls s
         \<and> capabilities s' = capabilities s \<and> settings s' = settings s
         \<and> (k \<noteq> ''fan_mode'' \<longrightarrow> capabilityValues s' k = capabilityValues s k)"
  using assms
  by (auto simp: parseFanMode_def Let_def platform_defs availability_calls_def
           split: sum.splits bool.splits prod.splits if_splits)

lemma log_error_frame:
  "available (log_error s m) = available s"
  "availability_calls (log_error s m) = availability_calls s"
  "capabilities (log_error s m) = capabilities s"
  "settings (log_error s m) = settings s"
  "capabilityValues (log_error s m) = capabilityValues s"
  by (simp_all add: log_error_def availability_calls_def)

lemma then_step_threw: "then_step (Some e, s) f = (Some e, s)"
  by (simp add: then_step_def)

lemma then_step_done: "then_step (None, s) f = f s"
  by (simp add: then_step_def)

lemma parseDeviceData_availability:
  assumes alive: "get_prop (or_empty d) ''isAlive'' = Inr v"
  shows "(available (snd (parseDeviceData rt d s)) = available s
            \<and> availability_calls (snd (parseDeviceData rt d s)) = availability_calls s)
         \<or> (available (snd (parseDeviceData rt d s)) = truthy v
            \<and> availability_calls (snd (parseDeviceData rt d s))
                = availability_calls s @ edge (available s) (truthy v))"
proof -
  obtain r1 s1 where m: "parseMeasuredTemperature rt d s = (r1, s1)"
    by (cases "parseMeasuredTemperature rt d s") auto
  have f1: "available s1 = available s" "availability_calls s1 = availability_calls s"
    using parseMeasuredTemperature_frame [OF m, of "[]"] by simp_all
  obtain r2 s2 where t: "parseTargetTemperature d s1 = (r2, s2)"
    by (cases "parseTargetTemperature d s1") auto
  have f2: "available s2 = available s" "availability_calls s2 = availability_calls s"
    using parseTargetTemperature_frame [OF t, of "[]"] f1 by simp_all
  obtain r3 s3 where tm: "(if hasCapability s2 ''custom_thermostat_mode''
                           then parseThermostatMode rt d s2 else (None, s2)) = (r3, s3)"
    by (cases "if hasCapability s2 ''custom_thermostat_mode''
               then parseThermostatMode rt d s2 else (None, s2)") auto
  have f3: "available s3 = available s" "availability_calls s3 = availability_calls s"
    using tm parseThermostatMode_frame [of rt d s2 r3 s3 "[]"] f2
    by (auto split: if_splits)
  obtain r4 s4 where ac: "(if hasCapability s3 ''custom_ac_mode''
                           then parseACMode d s3 else (None, s3)) = (r4, s4)"
    by (cases "if hasCapability s3 ''custom_ac_mode''
               then parseACMode d s3 else (None, s3)") auto
  have f4: "available s4 = available s" "availability_calls s4 = availability_calls s"
    using ac parseACMode_frame [of d s3 r4 s4 "[]"] f3
    by (auto split: if_splits)
  have last: "available (snd (parseAlive d s4)) = truthy v"
    "availability_calls (snd (parseAlive d s4))
       = availability_calls s @ edge (available s) (truthy v)"
    using parseAlive_step(2,3) [OF alive, of s4] f4 by simp_all
  show ?thesis
  proof (cases "r1 = None \<and> r2 = None \<and> r3 = None \<and> r4 = None")
    case True
    then have "parseDeviceData rt d s = parseAlive d s4"
      by (simp add: parseDeviceData_def m t tm ac then_step_done)
    with last show ?thesis by simp
  next
    case False
    then have "snd (parseDeviceData rt d s) \<in> {s1, s2, s3, s4}"
      by (cases r1; cases r2; cases r3; cases r4)
         (simp_all add: parseDeviceData_def m t tm ac then_step_done then_step_threw)
    with f1 f2 f3 f4 show ?thesis by auto
  qed
qed

lemma fetchFanData_frame:
  "available (fetchFanData fan s) = available s
   \<and> availability_calls (fetchFanData fan s) = availability_calls s
   \<and> capabilities (fetchFanData fan s) = capabilities s
   \<and> settings (fetchFanData fan s) = settings s
   \<and> (k \<noteq> ''fan_mode'' \<longrightarrow> capabilityValues (fetchFanData fan s) k = capabilityValues s k)"
proof (cases "and_then (getLocationId s) (\<lambda>loc. getFan fan loc (data_id s))")
  case (Inl e)
  then show ?thesis by (simp add: fetchFanData_def log_error_frame)
next
  case (Inr deviceData)
  obtain r s' where p: "parseFanMode deviceData s = (r, s')"
    by (cases "parseFanMode deviceData s") auto
  from parseFanMode_frame [OF p, of k] Inr p show ?thesis
    by (cases r) (simp_all add: fetchFanData_def log_error_frame)
qed

lemma getDevice_remote:
  "and_then (getLocationId s) (\<lambda>loc. getDevice (Inr d) loc (data_id s)) = Inr d' \<Longrightarrow> d' = d"
  by (auto simp: and_then_def getDevice_def split: sum.splits if_splits)

lemma fetchThermostatData_availability:
  assumes alive: "get_prop d ''isAlive'' = Inr v"
  shows "(available (snd (fetchThermostatData rt (Inr d) s)) = available s
            \<and> availability_calls (snd (fetchThermostatData rt (Inr d) s)) = availability_calls s)
         \<or> (available (snd (fetchThermostatData rt (Inr d) s)) = truthy v
            \<and> availability_calls (snd (fetchThermostatData rt (Inr d) s))
                = availability_calls s @ edge (available s) (truthy v))"
proof (cases "and_then (getLocationId s) (\<lambda>loc. getDevice (Inr d) loc (data_id s))")
  case (Inl e)
  then show ?thesis by (simp add: fetchThermostatData_def log_error_frame)
next
  case (Inr d')
  then have d': "d' = d" by (rule getDevice_remote)
  from alive have oe: "or_empty d = d" by (cases d) (simp_all add: or_empty_def)
  obtain r s' where p: "parseDeviceData rt d s = (r, s')"
    by (cases "parseDeviceData rt d s") auto
  from parseDeviceData_availability [of d v rt s] alive oe p
  have "(available s' = available s \<and> availability_calls s' = availability_calls s)
        \<or> (available s' = truthy v
            \<and> availability_calls s' = availability_calls s @ edge (available s) (truthy v))"
    by simp
  with Inr d' p show ?thesis
    by (cases r; cases "hasOwnProperty d ''changeableValues''")
       (auto simp: fetchThermostatData_def log_error_frame split: bool.splits)
qed

lemma fetchDeviceData_availability:
  assumes alive: "get_prop d ''isAlive'' = Inr v"
  shows "(available (fetchDeviceData rt (Inr d) fan s) = available s
            \<and> availability_calls (fetchDeviceData rt (Inr d) fan s) = availability_calls s)
         \<or> (available (fetchDeviceData rt (Inr d) fan s) = truthy v
            \<and> availability_calls (fetchDeviceData rt (Inr d) fan s)
                = availability_calls s @ edge (available s) (truthy v))"
proof -
  obtain returned s' where t: "fetchThermostatData rt (Inr d) s = (returned, s')"
    by (cases "fetchThermostatData rt (Inr d) s") auto
  from fetchThermostatData_availability [OF alive, of rt s] t
  have s': "(available s' = available s \<and> availability_calls s' = availability_calls s)
        \<or> (available s' = truthy v
            \<and> availability_calls s' = availability_calls s @ edge (available s) (truthy v))"
    by simp
  have "fetchDeviceData rt (Inr d) fan s = s' \<or> fetchDeviceData rt (Inr d) fan s = fetchFanData fan s'"
    by (simp add: fetchDeviceData_def t split: bool.splits)
  with s' fetchFanData_frame [of fan s' "[]"] show ?thesis by auto
qed

text \<open>
  C7. A step that processes a reported \<open>isAlive\<close> changes the availability only on an
  edge: \<open>setUnavailable\<close> is called exactly when the device is available and \<open>isAlive\<close>
  is falsy, \<open>setAvailable\<close> exactly when the device is unavailable and \<open>isAlive\<close> is
  truthy, and otherwise neither is called and the flag stays. A second step with the
  same aliveness makes no call, and two consecutive poll cycles that report the same
  aliveness make at most one availability call between them.
\<close>

theorem availability_on_edges:
  "(get_prop (or_empty d) ''isAlive'' = Inr v
      \<longrightarrow> fst (parseAlive d s) = None
          \<and> available (snd (parseAlive d s))
              = (if available s \<and> \<not> truthy v then False
                 else if \<not> available s \<and> truthy v then True
                 else available s)
          \<and> availability_calls (snd (parseAlive d s))
              = availability_calls s
                @ (if \<not> available s \<and> truthy v then [SetAvailable]
                   else if available s \<and> \<not> truthy v then [SetUnavailable ''unavailable'']
                   else []))
   \<and> (get_prop (or_empty d1) ''isAlive'' = Inr v1 \<and> get_prop (or_empty d2) ''isAlive'' = Inr v2
        \<and> truthy v1 = truthy v2
      \<longrightarrow> availability_calls (snd (parseAlive d2 (snd (parseAlive d1 s))))
            = availability_calls (snd (parseAlive d1 s))
          \<and> available (snd (parseAlive d2 (snd (parseAlive d1 s))))
            = available (snd (parseAlive d1 s)))
   \<and> (get_prop d1 ''isAlive'' = Inr v1 \<and> get_prop d2 ''isAlive'' = Inr v2
        \<and> truthy v1 = truthy v2
      \<longrightarrow> length (availability_calls
                    (fetchDeviceData rt (Inr d2) fan2 (fetchDeviceData rt (Inr d1) fan1 s)))
            \<le> length (availability_calls s) + 1)"
proof -
  have step: "get_prop (or_empty d) ''isAlive'' = Inr v
      \<longrightarrow> fst (parseAlive d s) = None
          \<and> available (snd (parseAlive d s))
              = (if available s \<and> \<not> truthy v then False
                 else if \<not> available s \<and> truthy v then True
                 else available s)
          \<and> availability_calls (snd (parseAlive d s))
              = availability_calls s
                @ (if \<not> available s \<and> truthy v then [SetAvailable]
                   else if available s \<and> \<not> truthy v then [SetUnavailable ''unavailable'']
                   else [])"
    using parseAlive_step(1,2,3) [of d v s] by (auto simp: edge_def)
  have twice: "get_prop (or_empty d1) ''isAlive'' = Inr v1
        \<and> get_prop (or_empty d2) ''isAlive'' = Inr v2 \<and> truthy v1 = truthy v2
      \<longrightarrow> availability_calls (snd (parseAlive d2 (snd (parseAlive d1 s))))
            = availability_calls (snd (parseAlive d1 s))
          \<and> available (snd (parseAlive d2 (snd (parseAlive d1 s))))
            = available (snd (parseAlive d1 s))"
    using parseAlive_step(2) [of d1 v1 s]
          parseAlive_step(2,3) [of d2 v2 "snd (parseAlive d1 s)"]
    by (auto simp: edge_def)
  have cycles: "get_prop d1 ''isAlive'' = Inr v1 \<and> get_prop d2 ''isAlive'' = Inr v2
        \<and> truthy v1 = truthy v2
      \<longrightarrow> length (availability_calls
                    (fetchDeviceData rt (Inr d2) fan2 (fetchDeviceData rt (Inr d1) fan1 s)))
            \<le> length (availability_calls s) + 1"
  proof
    assume h: "get_prop d1 ''isAlive'' = Inr v1 \<and> get_prop d2 ''isAlive'' = Inr v2
        \<and> truthy v1 = truthy v2"
    let ?s1 = "fetchDeviceData rt (Inr d1) fan1 s"
    from h fetchDeviceData_availability [of d1 v1 rt fan1 s]
         fetchDeviceData_availability [of d2 v2 rt fan2 ?s1]
    show "length (availability_calls (fetchDeviceData rt (Inr d2) fan2 ?s1))
            \<le> length (availability_calls s) + 1"
      by (auto simp: edge_def split: if_splits)
  qed
  from step twice cycles show ?thesis by blast
qed

theorem availability_on_edges_witness:
  "available (snd (parseAlive (example_payload [(''isAlive'', JBool False)])
                     (example_device True (JStr ''Celsius'')))) = False
   \<and> availability_calls (snd (parseAlive (example_payload [(''isAlive'', JBool False)])
                     (example_device True (JStr ''Celsius''))))
       = [SetUnavailable ''unavailable'']
   \<and> availability_calls
        (snd (parseAlive (example_payload [(''isAlive'', JBool False)])
          (snd (parseAlive (example_payload [(''isAlive'', JBool False)])
                  (example_device True (JStr ''Celsius''))))))
       = [SetUnavailable ''unavailable'']
   \<and> length (availability_calls
        (fetchDeviceData example_runtime (Inr (example_payload [(''isAlive'', JBool False)]))
           (Inl (TransportError ''timeout''))
           (fetchDeviceData example_runtime (Inr (example_payload [(''isAlive'', JBool False)]))
              (Inl (TransportError ''timeout'')) (example_device True (JStr ''Celsius''))))) \<le> 1"
  using availability_on_edges
    [where d = "example_payload [(''isAlive'', JBool False)]" and v = "JBool False"
       and s = "example_device True (JStr ''Celsius'')"
       and ?d1.0 = "example_payload [(''isAlive'', JBool False)]" and ?v1.0 = "JBool False"
       and ?d2.0 = "example_payload [(''isAlive'', JBool False)]" and ?v2.0 = "JBool False"
       and rt = example_runtime and ?fan1.0 = "Inl (TransportError ''timeout'')"
       and ?fan2.0 = "Inl (TransportError ''timeout'')"]
  by (simp add: device_ex_defs access_defs)


lemma parseTargetTemperature_stores:
  assumes "changeableHas (or_empty d) ''mode'' = Inr True"
      and "changeableHas (or_empty d) ''heatSetpoint'' = Inr True"
      and "changeableHas (or_empty d) ''coolSetpoint'' = Inr True"
      and "changeable (or_empty d) ''heatSetpoint'' = Inr h"
      and "changeable (or_empty d) ''coolSetpoint'' = Inr c"
  shows "parseTargetTemperature d s
           = (None, if hasCapability s ''target_temperature.cool''
                    then setCapabilityValue (setCapabilityValue s ''target_temperature'' h)
                           ''target_temperature.cool'' c
                    else setCapabilityValue s ''target_temperature'' h)"
  using assms
  by (simp add: parseTargetTemperature_def Let_def hasCapability_def setCapabilityValue_def)



lemma hasOwn_object:
  assumes "hasOwnProperty d k = Inr True"
  shows "or_empty d = d" and "\<exists>v. get_prop d k' = Inr v"
  using assms by (cases d; simp add: or_empty_def)+



lemma parseThermostatMode_stores:
  assumes "changeableHas (or_empty d) ''mode'' = Inr True"
      and "changeable (or_empty d) ''mode'' = Inr (JStr md)"
  shows "parseThermostatMode rt d s
           = (None, setCapabilityValue
                      (if getCapabilityValue s ''custom_thermostat_mode''
                            \<noteq> JStr (toLowerCase rt md)
                       then trigger s (JStr (toLowerCase rt md)) else s)
                      ''custom_thermostat_mode'' (JStr (toLowerCase rt md)))"
  using assms by (simp add: parseThermostatMode_def Let_def and_then_def lower_case_def)

lemma parseACMode_stores:
  assumes "changeableHas (or_empty d) ''mode'' = Inr True"
      and "changeable (or_empty d) ''mode'' = Inr m"
  shows "parseACMode d s = (None, setCapabilityValue s ''custom_ac_mode'' m)"
  using assms by (simp add: parseACMode_def Let_def)

lemma parseAlive_happened:
  "set (happened s) \<subseteq> set (happened (snd (parseAlive d s)))"
  by (auto simp: parseAlive_def Let_def getAvailable_def setAvailable_def setUnavailable_def
                 log_error_def split: sum.splits)

lemma fetchFanData_happened:
  "set (happened s) \<subseteq> set (happened (fetchFanData fan s))"
  by (auto simp: fetchFanData_def parseFanMode_def log_error_def setCapabilityValue_def
           split: sum.splits bool.splits prod.splits option.splits)

lemma fetchDeviceData_returned:
  assumes "is_string (store_locationId s)" "is_string (data_id s)"
      and "hasOwnProperty d ''changeableValues'' = Inr True"
      and "parseDeviceData rt d s = (None, s')"
  shows "fetchDeviceData rt (Inr d) fan s = s'
         \<or> fetchDeviceData rt (Inr d) fan s = fetchFanData fan s'"
proof -
  have "fetchThermostatData rt (Inr d) s = (False, s')"
    using assms
    by (simp add: fetchThermostatData_def getLocationId_def getDevice_def and_then_def)
  then show ?thesis by (auto simp: fetchDeviceData_def)
qed

lemma lower_Heat:
  "ascii_lower CHR ''H'' = CHR ''h''" "ascii_lower CHR ''e'' = CHR ''e''"
  "ascii_lower CHR ''a'' = CHR ''a''" "ascii_lower CHR ''t'' = CHR ''t''"
  by code_simp+

text \<open>
  \<open>_parseAlive\<close> logs a missing \<open>isAlive\<close> and goes on with the value \<open>undefined\<close>: the
  device is unavailable afterwards, whatever it was before.
\<close>

lemma parseAlive_without_isAlive:
  assumes "hasOwnProperty (or_empty d) ''isAlive'' = Inr False"
  shows "available (snd (parseAlive d s)) = False"
  using assms
  by (cases "or_empty d")
     (auto simp: parseAlive_def Let_def getAvailable_def setAvailable_def setUnavailable_def
                 log_error_def)

text \<open>
  C5, as the code has it. A payload without \<open>changeableValues\<close> that has \<open>units\<close>,
  \<open>indoorTemperature\<close> and \<open>isAlive\<close>: run alone, the measured-temperature step would
  store 21 and the aliveness step would mark the device unavailable, but the poll cycle
  runs neither; it logs the missing \<open>changeableValues\<close> and returns.
\<close>

theorem partial_reconciliation_counterexample:
  "getCapabilityValue
      (snd (parseMeasuredTemperature example_runtime
              (JObj [(''units'', JStr ''Celsius''), (''indoorTemperature'', JNum 21),
                     (''isAlive'', JBool False)])
              (example_device True (JStr ''Celsius'')))) ''measure_temperature'' = JNum 21
   \<and> available
      (snd (parseAlive
              (JObj [(''units'', JStr ''Celsius''), (''indoorTemperature'', JNum 21),
                     (''isAlive'', JBool False)])
              (example_device True (JStr ''Celsius'')))) = False
   \<and> getCapabilityValue
      (fetchDeviceData example_runtime
         (Inr (JObj [(''units'', JStr ''Celsius''), (''indoorTemperature'', JNum 21),
                     (''isAlive'', JBool False)]))
         (Inl (TransportError ''timeout'')) (example_device True (JStr ''Celsius'')))
      ''measure_temperature'' = JNull
   \<and> available
      (fetchDeviceData example_runtime
         (Inr (JObj [(''units'', JStr ''Celsius''), (''indoorTemperature'', JNum 21),
                     (''isAlive'', JBool False)]))
         (Inl (TransportError ''timeout'')) (example_device True (JStr ''Celsius''))) = True
   \<and> happened
      (fetchDeviceData example_runtime
         (Inr (JObj [(''units'', JStr ''Celsius''), (''indoorTemperature'', JNum 21),
                     (''isAlive'', JBool False)]))
         (Inl (TransportError ''timeout'')) (example_device True (JStr ''Celsius'')))
      = [ErrorLogged
           ''_fetchDeviceData() -> expected device to have changeableValues property'']"
  by (simp add: device_ex_defs access_defs fetchDeviceData_def fetchThermostatData_def
                getLocationId_def getDevice_def parseMeasuredTemperature_def parseAlive_def
                Let_def UNIT_CELSIUS_def platform_defs getAvailable_def setAvailable_def
                setUnavailable_def)

text \<open>
  C5, amended. Without \<open>changeableValues\<close> the thermostat part of the cycle is the one
  log line: no parse step runs, and the settings, the availability and every thermostat
  capability are as before. Without \<open>units\<close> the measured-temperature step is only its
  log line; in such a cycle the settings and the measured temperature are as before,
  while the other steps run: the target temperature (and the cool one, with the
  capability) is stored, each mode capability the device has is stored (the thermostat
  mode lower-cased, with the trigger when it changed), and the availability follows the
  reported \<open>isAlive\<close>. The presence of \<open>indoorTemperature\<close> is not tested: with \<open>units\<close>
  present the measured-temperature step runs and sets the unit setting.
\<close>

theorem partial_reconciliation:
  "(is_string (store_locationId s) \<and> is_string (data_id s)
      \<and> hasOwnProperty d ''changeableValues'' = Inr False
    \<longrightarrow> snd (fetchThermostatData rt (Inr d) s)
          = log_error s
              ''_fetchDeviceData() -> expected device to have changeableValues property''
        \<and> settings (fetchDeviceData rt (Inr d) fan s) = settings s
        \<and> available (fetchDeviceData rt (Inr d) fan s) = available s
        \<and> availability_calls (fetchDeviceData rt (Inr d) fan s) = availability_calls s
        \<and> (k \<noteq> ''fan_mode''
            \<longrightarrow> getCapabilityValue (fetchDeviceData rt (Inr d) fan s) k
                  = getCapabilityValue s k))
   \<and> (hasOwnProperty (or_empty d) ''units'' = Inr False
    \<longrightarrow> parseMeasuredTemperature rt d s
          = (None, log_error s
               ''_parseMeasuredTemperature() -> expected device to have units property''))
   \<and> (is_string (store_locationId s) \<and> is_string (data_id s)
      \<and> hasOwnProperty d ''changeableValues'' = Inr True
      \<and> hasOwnProperty d ''units'' = Inr False
      \<and> changeableHas d ''mode'' = Inr True
      \<and> changeableHas d ''heatSetpoint'' = Inr True
      \<and> changeableHas d ''coolSetpoint'' = Inr True
      \<and> changeable d ''mode'' = Inr (JStr md)
      \<and> changeable d ''heatSetpoint'' = Inr h
      \<and> changeable d ''coolSetpoint'' = Inr c
      \<and> hasOwnProperty d ''isAlive'' = Inr True
      \<and> get_prop d ''isAlive'' = Inr v
    \<longrightarrow> settings (fetchDeviceData rt (Inr d) fan s) = settings s
        \<and> getCapabilityValue (fetchDeviceData rt (Inr d) fan s) ''measure_temperature''
            = getCapabilityValue s ''measure_temperature''
        \<and> getCapabilityValue (fetchDeviceData rt (Inr d) fan s) ''target_temperature'' = h
        \<and> (hasCapability s ''target_temperature.cool''
            \<longrightarrow> getCapabilityValue (fetchDeviceData rt (Inr d) fan s)
                  ''target_temperature.cool'' = c)
        \<and> (hasCapability s ''custom_thermostat_mode''
            \<longrightarrow> getCapabilityValue (fetchDeviceData rt (Inr d) fan s)
                  ''custom_thermostat_mode'' = JStr (toLowerCase rt md))
        \<and> (hasCapability s ''custom_thermostat_mode''
              \<and> getCapabilityValue s ''custom_thermostat_mode'' \<noteq> JStr (toLowerCase rt md)
            \<longrightarrow> Trigger (JStr (toLowerCase rt md))
                  \<in> set (happened (fetchDeviceData rt (Inr d) fan s)))
        \<and> (hasCapability s ''custom_ac_mode''
            \<longrightarrow> getCapabilityValue (fetchDeviceData rt (Inr d) fan s)
                  ''custom_ac_mode'' = JStr md)
        \<and> available (fetchDeviceData rt (Inr d) fan s) = truthy v)
   \<and> (hasOwnProperty (or_empty d) ''units'' = Inr True
      \<and> get_prop (or_empty d) ''units'' = Inr u
      \<and> hasOwnProperty (or_empty d) ''indoorTemperature'' = Inr False
    \<longrightarrow> fst (parseMeasuredTemperature rt d s) = None
        \<and> getSetting (snd (parseMeasuredTemperature rt d s)) ''units'' = u)"
proof -
  have no_values: "is_string (store_locationId s) \<and> is_string (data_id s)
      \<and> hasOwnProperty d ''changeableValues'' = Inr False
    \<longrightarrow> snd (fetchThermostatData rt (Inr d) s)
          = log_error s
              ''_fetchDeviceData() -> expected device to have changeableValues property''
        \<and> settings (fetchDeviceData rt (Inr d) fan s) = settings s
        \<and> available (fetchDeviceData rt (Inr d) fan s) = available s
        \<and> availability_calls (fetchDeviceData rt (Inr d) fan s) = availability_calls s
        \<and> (k \<noteq> ''fan_mode''
            \<longrightarrow> getCapabilityValue (fetchDeviceData rt (Inr d) fan s) k
                  = getCapabilityValue s k)"
    by (simp add: fetchDeviceData_def fetchThermostatData_def getLocationId_def getDevice_def
                  and_then_def log_error_frame getCapabilityValue_def)
  have no_units: "hasOwnProperty (or_empty d) ''units'' = Inr False
    \<longrightarrow> parseMeasuredTemperature rt d s
          = (None, log_error s
               ''_parseMeasuredTemperature() -> expected device to have units property'')"
    by (simp add: parseMeasuredTemperature_def Let_def)
  have others: "is_string (store_locationId s) \<and> is_string (data_id s)
      \<and> hasOwnProperty d ''changeableValues'' = Inr True
      \<and> hasOwnProperty d ''units'' = Inr False
      \<and> changeableHas d ''mode'' = Inr True
      \<and> changeableHas d ''heatSetpoint'' = Inr True
      \<and> changeableHas d ''coolSetpoint'' = Inr True
      \<and> changeable d ''mode'' = Inr (JStr md)
      \<and> changeable d ''heatSetpoint'' = Inr h
      \<and> changeable d ''coolSetpoint'' = Inr c
      \<and> hasOwnProperty d ''isAlive'' = Inr True
      \<and> get_prop d ''isAlive'' = Inr v
    \<longrightarrow> settings (fetchDeviceData rt (Inr d) fan s) = settings s
        \<and> getCapabilityValue (fetchDeviceData rt (Inr d) fan s) ''measure_temperature''
            = getCapabilityValue s ''measure_temperature''
        \<and> getCapabilityValue (fetchDeviceData rt (Inr d) fan s) ''target_temperature'' = h
        \<and> (hasCapability s ''target_temperature.cool''
            \<longrightarrow> getCapabilityValue (fetchDeviceData rt (Inr d) fan s)
                  ''target_temperature.cool'' = c)
        \<and> (hasCapability s ''custom_thermostat_mode''
            \<longrightarrow> getCapabilityValue (fetchDeviceData rt (Inr d) fan s)
                  ''custom_thermostat_mode'' = JStr (toLowerCase rt md))
        \<and> (hasCapability s ''custom_thermostat_mode''
              \<and> getCapabilityValue s ''custom_thermostat_mode'' \<noteq> JStr (toLowerCase rt md)
            \<longrightarrow> Trigger (JStr (toLowerCase rt md))
                  \<in> set (happened (fetchDeviceData rt (Inr d) fan s)))
        \<and> (hasCapability s ''custom_ac_mode''
            \<longrightarrow> getCapabilityValue (fetchDeviceData rt (Inr d) fan s)
                  ''custom_ac_mode'' = JStr md)
        \<and> available (fetchDeviceData rt (Inr d) fan s) = truthy v"
  proof
    assume a: "is_string (store_locationId s) \<and> is_string (data_id s)
      \<and> hasOwnProperty d ''changeableValues'' = Inr True
      \<and> hasOwnProperty d ''units'' = Inr False
      \<and> changeableHas d ''mode'' = Inr True
      \<and> changeableHas d ''heatSetpoint'' = Inr True
      \<and> changeableHas d ''coolSetpoint'' = Inr True
      \<and> changeable d ''mode'' = Inr (JStr md)
      \<and> changeable d ''heatSetpoint'' = Inr h
      \<and> changeable d ''coolSetpoint'' = Inr c
      \<and> hasOwnProperty d ''isAlive'' = Inr True
      \<and> get_prop d ''isAlive'' = Inr v"
    then have cv: "hasOwnProperty d ''changeableValues'' = Inr True" by simp
    note oe = hasOwn_object(1) [OF cv]
    define low where "low = JStr (toLowerCase rt md)"
    define s1 where "s1 = log_error s
                 ''_parseMeasuredTemperature() -> expected device to have units property''"
    define s2 where "s2 = (if hasCapability s1 ''target_temperature.cool''
               then setCapabilityValue (setCapabilityValue s1 ''target_temperature'' h)
                      ''target_temperature.cool'' c
               else setCapabilityValue s1 ''target_temperature'' h)"
    define s3 where "s3 = (if hasCapability s2 ''custom_thermostat_mode''
               then setCapabilityValue
                      (if getCapabilityValue s2 ''custom_thermostat_mode'' \<noteq> low
                       then trigger s2 low else s2)
                      ''custom_thermostat_mode'' low
               else s2)"
    define s4 where "s4 = (if hasCapability s3 ''custom_ac_mode''
               then setCapabilityValue s3 ''custom_ac_mode'' (JStr md) else s3)"
    define s' where "s' = snd (parseAlive d s4)"
    have m: "parseMeasuredTemperature rt d s = (None, s1)"
      using a no_units by (simp add: oe s1_def)
    have tt: "parseTargetTemperature d s1 = (None, s2)"
      using a parseTargetTemperature_stores [of d h c s1] by (simp add: oe s2_def)
    have tm: "(if hasCapability s2 ''custom_thermostat_mode''
               then parseThermostatMode rt d s2 else (None, s2)) = (None, s3)"
      using a parseThermostatMode_stores [of d md rt s2] by (simp add: oe s3_def low_def)
    have ac: "(if hasCapability s3 ''custom_ac_mode''
               then parseACMode d s3 else (None, s3)) = (None, s4)"
      using a parseACMode_stores [of d "JStr md" s3] by (simp add: oe s4_def)
    have alive: "get_prop (or_empty d) ''isAlive'' = Inr v"
      using a by (simp add: oe)
    have chain: "parseDeviceData rt d s = parseAlive d s4"
      unfolding parseDeviceData_def
      by (simp only: m tt tm ac then_step_done)
    have "parseAlive d s4 = (fst (parseAlive d s4), snd (parseAlive d s4))"
      by (rule surjective_pairing)
    then have s': "parseDeviceData rt d s = (None, s')"
      unfolding chain s'_def by (simp only: parseAlive_step(1) [OF alive])
    have vals: "capabilityValues s' = capabilityValues s4" "settings s' = settings s4"
               "available s' = truthy v" "set (happened s4) \<subseteq> set (happened s')"
      using parseAlive_step(2,4,5) [OF alive, of s4] parseAlive_happened [of s4 d]
      by (simp_all add: s'_def)
    have final: "fetchDeviceData rt (Inr d) fan s = s'
                 \<or> fetchDeviceData rt (Inr d) fan s = fetchFanData fan s'"
      using fetchDeviceData_returned [of s d rt s' fan] a s' by simp
    have keep: "\<And>k. k \<noteq> ''fan_mode''
        \<Longrightarrow> capabilityValues (fetchDeviceData rt (Inr d) fan s) k = capabilityValues s4 k"
      using final vals(1) fetchFanData_frame [of fan s'] by auto
    have keep_settings: "settings (fetchDeviceData rt (Inr d) fan s) = settings s4"
      using final vals(2) fetchFanData_frame [of fan s' "[]"] by auto
    have keep_available: "available (fetchDeviceData rt (Inr d) fan s) = truthy v"
      using final vals(3) fetchFanData_frame [of fan s' "[]"] by auto
    have keep_happened: "set (happened s4) \<subseteq> set (happened (fetchDeviceData rt (Inr d) fan s))"
      using final vals(4) fetchFanData_happened [of s' fan] by auto
    have trig: "hasCapability s ''custom_thermostat_mode''
              \<and> getCapabilityValue s ''custom_thermostat_mode'' \<noteq> low
            \<longrightarrow> Trigger low \<in> set (happened s4)"
      by (simp add: s1_def s2_def s3_def s4_def platform_defs)
    have s4_values: "settings s4 = settings s"
        "capabilityValues s4 ''measure_temperature'' = capabilityValues s ''measure_temperature''"
        "capabilityValues s4 ''target_temperature'' = h"
        "hasCapability s ''target_temperature.cool''
           \<longrightarrow> capabilityValues s4 ''target_temperature.cool'' = c"
        "hasCapability s ''custom_thermostat_mode''
           \<longrightarrow> capabilityValues s4 ''custom_thermostat_mode'' = low"
        "hasCapability s ''custom_ac_mode''
           \<longrightarrow> capabilityValues s4 ''custom_ac_mode'' = JStr md"
      by (simp_all add: s1_def s2_def s3_def s4_def platform_defs)
    from keep [of "''measure_temperature''"] keep [of "''target_temperature''"]
         keep [of "''target_temperature.cool''"] keep [of "''custom_thermostat_mode''"]
         keep [of "''custom_ac_mode''"] keep_settings keep_available keep_happened trig
         s4_values
    show "settings (fetchDeviceData rt (Inr d) fan s) = settings s
        \<and> getCapabilityValue (fetchDeviceData rt (Inr d) fan s) ''measure_temperature''
            = getCapabilityValue s ''measure_temperature''
        \<and> getCapabilityValue (fetchDeviceData rt (Inr d) fan s) ''target_temperature'' = h
        \<and> (hasCapability s ''target_temperature.cool''
            \<longrightarrow> getCapabilityValue (fetchDeviceData rt (Inr d) fan s)
                  ''target_temperature.cool'' = c)
        \<and> (hasCapability s ''custom_thermostat_mode''
            \<longrightarrow> getCapabilityValue (fetchDeviceData rt (Inr d) fan s)
                  ''custom_thermostat_mode'' = JStr (toLowerCase rt md))
        \<and> (hasCapability s ''custom_thermostat_mode''
              \<and> getCapabilityValue s ''custom_thermostat_mode'' \<noteq> JStr (toLowerCase rt md)
            \<longrightarrow> Trigger (JStr (toLowerCase rt md))
                  \<in> set (happened (fetchDeviceData rt (Inr d) fan s)))
        \<and> (hasCapability s ''custom_ac_mode''
            \<longrightarrow> getCapabilityValue (fetchDeviceData rt (Inr d) fan s)
                  ''custom_ac_mode'' = JStr md)
        \<and> available (fetchDeviceData rt (Inr d) fan s) = truthy v"
      by (auto simp: getCapabilityValue_def low_def)
  qed
  have no_temperature: "hasOwnProperty (or_empty d) ''units'' = Inr True
      \<and> get_prop (or_empty d) ''units'' = Inr u
      \<and> hasOwnProperty (or_empty d) ''indoorTemperature'' = Inr False
    \<longrightarrow> fst (parseMeasuredTemperature rt d s) = None
        \<and> getSetting (snd (parseMeasuredTemperature rt d s)) ''units'' = u"
    by (cases "or_empty d")
       (auto simp: parseMeasuredTemperature_def Let_def and_then_def ftoc_js_def
                   getSetting_def setSettings_def setCapabilityValue_def)
  from no_values no_units others no_temperature show ?thesis by blast
qed

theorem partial_reconciliation_witness:
  "snd (fetchThermostatData example_runtime
      (Inr (JObj [(''units'', JStr ''Celsius''), (''indoorTemperature'', JNum 21),
                  (''isAlive'', JBool False)]))
      (example_device True (JStr ''Celsius'')))
     = log_error (example_device True (JStr ''Celsius''))
         ''_fetchDeviceData() -> expected device to have changeableValues property''
   \<and> settings (fetchDeviceData example_runtime
        (Inr (example_payload [(''indoorTemperature'', JNum 70), (''isAlive'', JBool False)]))
        (Inl (TransportError ''timeout''))
        ((example_device True (JStr ''Celsius''))
           \<lparr>capabilities := {''target_temperature'', ''custom_thermostat_mode'',
                             ''custom_ac_mode''}\<rparr>))
      = settings (example_device True (JStr ''Celsius''))
   \<and> getCapabilityValue (fetchDeviceData example_runtime
        (Inr (example_payload [(''indoorTemperature'', JNum 70), (''isAlive'', JBool False)]))
        (Inl (TransportError ''timeout''))
        ((example_device True (JStr ''Celsius''))
           \<lparr>capabilities := {''target_temperature'', ''custom_thermostat_mode'',
                             ''custom_ac_mode''}\<rparr>))
        ''measure_temperature'' = JNull
   \<and> getCapabilityValue (fetchDeviceData example_runtime
        (Inr (example_payload [(''indoorTemperature'', JNum 70), (''isAlive'', JBool False)]))
        (Inl (TransportError ''timeout''))
        ((example_device True (JStr ''Celsius''))
           \<lparr>capabilities := {''target_temperature'', ''custom_thermostat_mode'',
                             ''custom_ac_mode''}\<rparr>))
        ''target_temperature'' = JNum 68
   \<and> getCapabilityValue (fetchDeviceData example_runtime
        (Inr (example_payload [(''indoorTemperature'', JNum 70), (''isAlive'', JBool False)]))
        (Inl (TransportError ''timeout''))
        ((example_device True (JStr ''Celsius''))
           \<lparr>capabilities := {''target_temperature'', ''custom_thermostat_mode'',
                             ''custom_ac_mode''}\<rparr>))
        ''custom_thermostat_mode'' = JStr ''heat''
   \<and> Trigger (JStr ''heat'') \<in> set (happened (fetchDeviceData example_runtime
        (Inr (example_payload [(''indoorTemperature'', JNum 70), (''isAlive'', JBool False)]))
        (Inl (TransportError ''timeout''))
        ((example_device True (JStr ''Celsius''))
           \<lparr>capabilities := {''target_temperature'', ''custom_thermostat_mode'',
                             ''custom_ac_mode''}\<rparr>)))
   \<and> getCapabilityValue (fetchDeviceData example_runtime
        (Inr (example_payload [(''indoorTemperature'', JNum 70), (''isAlive'', JBool False)]))
        (Inl (TransportError ''timeout''))
        ((example_device True (JStr ''Celsius''))
           \<lparr>capabilities := {''target_temperature'', ''custom_thermostat_mode'',
                             ''custom_ac_mode''}\<rparr>))
        ''custom_ac_mode'' = JStr ''Heat''
   \<and> available (fetchDeviceData example_runtime
        (Inr (example_payload [(''indoorTemperature'', JNum 70), (''isAlive'', JBool False)]))
        (Inl (TransportError ''timeout''))
        ((example_device True (JStr ''Celsius''))
           \<lparr>capabilities := {''target_temperature'', ''custom_thermostat_mode'',
                             ''custom_ac_mode''}\<rparr>)) = False"
  using partial_reconciliation
    [where s = "example_device True (JStr ''Celsius'')"
       and d = "JObj [(''units'', JStr ''Celsius''), (''indoorTemperature'', JNum 21),
                      (''isAlive'', JBool False)]"
       and rt = example_runtime and fan = "Inl (TransportError ''timeout'')"
       and k = "''measure_temperature''"]
    partial_reconciliation
    [where s = "(example_device True (JStr ''Celsius''))
           \<lparr>capabilities := {''target_temperature'', ''custom_thermostat_mode'',
                             ''custom_ac_mode''}\<rparr>"
       and d = "example_payload [(''indoorTemperature'', JNum 70), (''isAlive'', JBool False)]"
       and rt = example_runtime and fan = "Inl (TransportError ''timeout'')"
       and md = "''Heat''" and h = "JNum 68" and c = "JNum 77" and v = "JBool False"]
  by (simp add: device_ex_defs access_defs lower_Heat)







end
